theory Spec2Isabelle
  imports Main "HOL-Library.Sublist"
begin

section \<open>Python string and list primitives used by \<open>codepy/toolchain.py\<close>\<close>

text \<open>
  Strings are \<open>string\<close> (lists of \<open>char\<close>); a \<open>char\<close> stands for a code point below 256.
  \<open>s.startswith(p)\<close> is \<open>prefix p s\<close>, \<open>s.endswith(p)\<close> is \<open>suffix p s\<close>
  and \<open>p in s\<close> on strings is \<open>contains s p\<close>.
\<close>

definition startswith :: "string \<Rightarrow> string \<Rightarrow> bool" where
  "startswith s p = prefix p s"

definition endswith :: "string \<Rightarrow> string \<Rightarrow> bool" where
  "endswith s p = suffix p s"

fun contains :: "string \<Rightarrow> string \<Rightarrow> bool" where
  "contains [] sub = (sub = [])"
| "contains (c # cs) sub = (prefix sub (c # cs) \<or> contains cs sub)"

text \<open>\<open>sep.join(xs)\<close>.\<close>

fun join :: "string \<Rightarrow> string list \<Rightarrow> string" where
  "join sep [] = []"
| "join sep [x] = x"
| "join sep (x # y # ys) = x @ sep @ join sep (y # ys)"

text \<open>
  \<open>s.split(c)\<close> for a one-character separator: the pieces between the separators, empty
  pieces included, so that the empty string gives one empty piece.
\<close>

fun split_acc :: "char \<Rightarrow> string \<Rightarrow> string \<Rightarrow> string list" where
  "split_acc c cur [] = [cur]"
| "split_acc c cur (x # xs) =
     (if x = c then cur # split_acc c [] xs else split_acc c (cur @ [x]) xs)"

definition split_char :: "char \<Rightarrow> string \<Rightarrow> string list" where
  "split_char c s = split_acc c [] s"

text \<open>
  \<open>s.split()\<close> without a separator: the maximal runs of non-whitespace characters.
  The whitespace characters below code point 256 are the ones \<open>str.isspace\<close> accepts:
  tab to carriage return, the four separators 28 to 31, space, NEL and the no-break space.
\<close>

definition is_space :: "char \<Rightarrow> bool" where
  "is_space c = (of_char c \<in> {9, 10, 11, 12, 13, 28, 29, 30, 31, 32, 133, 160 :: nat})"

fun words_acc :: "string \<Rightarrow> string \<Rightarrow> string list" where
  "words_acc cur [] = (if cur = [] then [] else [cur])"
| "words_acc cur (c # cs) =
     (if is_space c then (if cur = [] then words_acc [] cs else cur # words_acc [] cs)
      else words_acc (cur @ [c]) cs)"

definition split_ws :: "string \<Rightarrow> string list" where
  "split_ws s = words_acc [] s"

text \<open>\<open>"%d" % n\<close> for an integer \<open>n\<close>.\<close>

definition digit_char :: "nat \<Rightarrow> char" where
  "digit_char d = ''0123456789'' ! d"

fun dec_nat :: "nat \<Rightarrow> string" where
  "dec_nat n = (if n < 10 then [digit_char n] else dec_nat (n div 10) @ [digit_char (n mod 10)])"

declare dec_nat.simps [simp del]

definition dec_int :: "int \<Rightarrow> string" where
  "dec_int i = (if i < 0 then CHR ''-'' # dec_nat (nat (- i)) else dec_nat (nat i))"

text \<open>Comparison \<open>a >= b\<close> of two tuples of integers: lexicographic, a proper prefix is smaller.\<close>

fun tuple_ge :: "int list \<Rightarrow> int list \<Rightarrow> bool" where
  "tuple_ge xs [] = True"
| "tuple_ge [] (y # ys) = False"
| "tuple_ge (x # xs) (y # ys) = (if x = y then tuple_ge xs ys else y < x)"

section \<open>Errors, the host, and the toolchain record\<close>

text \<open>
  Every exception the modelled code can raise is a value. \<open>CompileErrorMixed S\<close> is
  \<open>CompileError("Can't compile mixed filetypes: " + ", ".join(S))\<close> for the set \<open>S\<close>: the order in
  which a Python set is iterated is not fixed by the source, so the message is kept as the set.
  \<open>NameError\<close> carries the unbound name.
\<close>

datatype error =
    CompileError string
  | CompileErrorMixed "string set"
  | RuntimeError string
  | IndexError
  | ValueError
  | NameError string
  | TypeError

text \<open>
  What the code obtains from outside the repository is a field of the host:
  \<^item> \<open>run\<close>: the process primitive, from a command line to exit code, standard output and
    standard error (\<open>call_capture_output\<close> returns all three, \<open>call\<close> the exit code only);
  \<^item> \<open>sys_version\<close>: the interpreter's \<open>sys.version\<close>;
  \<^item> \<open>int_of_str\<close>: the builtin \<open>int\<close> on a string, \<open>None\<close> for \<open>ValueError\<close>;
  \<^item> \<open>re_search_target\<close>: \<open>re.search\<close> of the target pattern of the ISPC constructor in a line,
    giving the three groups;
  \<^item> \<open>module_path\<close>: \<open>realpath(__file__)\<close>;
  \<^item> \<open>tmp_name\<close>: the name of the temporary file a probe creates.
\<close>

record host =
  run :: "string list \<Rightarrow> int \<times> string \<times> string"
  sys_version :: string
  int_of_str :: "string \<Rightarrow> int option"
  re_search_target :: "string \<Rightarrow> (string \<times> string \<times> string) option"
  module_path :: string
  tmp_name :: string

definition call_capture_output :: "host \<Rightarrow> string list \<Rightarrow> int \<times> string \<times> string" where
  "call_capture_output h cmd = run h cmd"

definition call :: "host \<Rightarrow> string list \<Rightarrow> int" where
  "call h cmd = fst (run h cmd)"

text \<open>
  A toolchain is a record of its fields (the record base of the source stores the keyword
  arguments of the constructor as attributes); \<open>copy(f = v)\<close> is the record update.
  The list-valued fields are separate lists.
\<close>

record toolchain =
  cc :: string
  cpp :: string
  ld :: string
  cflags :: "string list"
  cppflags :: "string list"
  ldflags :: "string list"
  defines' :: "string list"
  undefines :: "string list"
  include_dirs :: "string list"
  library_dirs :: "string list"
  libraries :: "string list"
  so_ext :: string
  o_ext :: string
  features :: "string set"

datatype backend = GCC | NVCC | ISPC

section \<open>\<open>Toolchain.add_library\<close>\<close>

text \<open>
  The loop \<open>for d in dirs: if d not in self.dirs: self.dirs.append(d)\<close>: the membership test
  sees the entries appended so far.
\<close>

fun append_new :: "string list \<Rightarrow> string list \<Rightarrow> string list" where
  "append_new existing [] = existing"
| "append_new existing (d # ds) =
     append_new (if d \<in> set existing then existing else existing @ [d]) ds"

definition add_library ::
  "toolchain \<Rightarrow> string \<Rightarrow> string list \<Rightarrow> string list \<Rightarrow> string list \<Rightarrow> toolchain" where
  "add_library self feature idirs ldirs libs =
     (if feature \<in> features self then self
      else self\<lparr>features := insert feature (features self),
                include_dirs := append_new (include_dirs self) idirs,
                library_dirs := append_new (library_dirs self) ldirs,
                libraries := libs @ libraries self\<rparr>)"

section \<open>Command lines\<close>

definition gcc_cmdline :: "toolchain \<Rightarrow> string list \<Rightarrow> bool \<Rightarrow> string list" where
  "gcc_cmdline self files object =
     (let ld_options = (if object then [''-c''] else ldflags self);
          link = (if object then []
                  else map (\<lambda>ldir. ''-L'' @ ldir) (library_dirs self)
                       @ map (\<lambda>lib. ''-l'' @ lib) (libraries self))
      in [cc self] @ cflags self @ ld_options
         @ map (\<lambda>d. ''-D'' @ d) (defines' self)
         @ map (\<lambda>u. ''-U'' @ u) (undefines self)
         @ map (\<lambda>i. ''-I'' @ i) (include_dirs self)
         @ files @ link)"

definition nvcc_cmdline :: "toolchain \<Rightarrow> string list \<Rightarrow> bool \<Rightarrow> string list" where
  "nvcc_cmdline self files object =
     (let ldflags' = (if object then [''-c''] else ldflags self);
          load = (if object then []
                  else map (\<lambda>ldir. ''-L'' @ ldir) (library_dirs self)
                       @ map (\<lambda>lib. ''-l'' @ lib) (libraries self))
      in [cc self] @ cflags self @ ldflags'
         @ map (\<lambda>d. ''-D'' @ d) (defines' self)
         @ map (\<lambda>u. ''-U'' @ u) (undefines self)
         @ map (\<lambda>i. ''-I'' @ i) (include_dirs self)
         @ files @ load)"

text \<open>
  \<open>ISPCToolchain.get_cc\<close>: the condition is \<open>(obj and all(...)) or not files\<close>.
\<close>

definition get_cc :: "toolchain \<Rightarrow> string list \<Rightarrow> bool \<Rightarrow> string" where
  "get_cc self files obj =
     (if (obj \<and> list_all (\<lambda>f. endswith f ''.ispc'') files) \<or> files = [] then cc self
      else if list_all (\<lambda>f. endswith f ''.cpp'') files then cpp self
      else ld self)"

text \<open>
  \<open>__get_ext(f) = f[f.rindex('.') + 1:]\<close>; \<open>rindex\<close> raises \<open>ValueError\<close> when there is no dot.
\<close>

definition get_ext :: "string \<Rightarrow> error + string" where
  "get_ext f =
     (if CHR ''.'' \<in> set f then Inr (rev (takeWhile (\<lambda>c. c \<noteq> CHR ''.'') (rev f)))
      else Inl ValueError)"

text \<open>A list comprehension whose element expression can raise: the first error wins.\<close>

fun collect :: "('a \<Rightarrow> error + 'b) \<Rightarrow> 'a list \<Rightarrow> error + 'b list" where
  "collect g [] = Inr []"
| "collect g (x # xs) =
     (case g x of Inl e \<Rightarrow> Inl e
      | Inr y \<Rightarrow> (case collect g xs of Inl e \<Rightarrow> Inl e | Inr ys \<Rightarrow> Inr (y # ys)))"

text \<open>
  The check of \<open>ISPCToolchain._cmdline\<close> for mixed extensions, made when the executable is
  not the ISPC compiler. \<open>file[0]\<close> raises \<open>IndexError\<close> on an empty list.
\<close>

definition check_mixed :: "string list \<Rightarrow> error + unit" where
  "check_mixed file =
     (case file of [] \<Rightarrow> Inl IndexError
      | f0 # _ \<Rightarrow>
         (case get_ext f0 of Inl e \<Rightarrow> Inl e
          | Inr ext \<Rightarrow>
             if \<not> list_all (\<lambda>f. endswith f ext) file
             then (case collect get_ext file of Inl e \<Rightarrow> Inl e
                   | Inr exts \<Rightarrow> Inl (CompileErrorMixed (set exts)))
             else Inr ()))"

definition ispc_cmdline :: "toolchain \<Rightarrow> string list \<Rightarrow> bool \<Rightarrow> error + string list" where
  "ispc_cmdline self file obj =
     (let cc' = get_cc self file obj;
          flags = (if cc' \<noteq> cc self then cppflags self @ (if obj then [''-c''] else [])
                   else cflags self);
          checked = (if cc' \<noteq> cc self then check_mixed file else Inr ());
          ld_options = (if obj then [] else ldflags self);
          link = (if obj then []
                  else map (\<lambda>ldir. ''-L'' @ ldir) (library_dirs self)
                       @ map (\<lambda>lib. if \<not> lib = ''-fopenmp'' then ''-l'' @ lib else ''-fopenmp'')
                           (libraries self))
      in case checked of Inl e \<Rightarrow> Inl e
         | Inr _ \<Rightarrow>
            Inr ([cc'] @ flags @ ld_options
                 @ map (\<lambda>d. ''-D'' @ d) (defines' self)
                 @ map (\<lambda>u. ''-U'' @ u) (undefines self)
                 @ map (\<lambda>i. ''-I'' @ i) (include_dirs self)
                 @ file @ link))"

text \<open>\<open>self._cmdline(files, object)\<close>, dispatched on the class of \<open>self\<close>.\<close>

definition cmdline :: "backend \<Rightarrow> toolchain \<Rightarrow> string list \<Rightarrow> bool \<Rightarrow> error + string list" where
  "cmdline b self files object =
     (case b of GCC \<Rightarrow> Inr (gcc_cmdline self files object)
      | NVCC \<Rightarrow> Inr (nvcc_cmdline self files object)
      | ISPC \<Rightarrow> ispc_cmdline self files object)"

section \<open>Version probe and ABI identifier\<close>

text \<open>\<open>GCCLikeToolchain.get_version\<close>.\<close>

definition get_version :: "host \<Rightarrow> toolchain \<Rightarrow> error + string" where
  "get_version h self =
     (case call_capture_output h [cc self, ''--version''] of
        (result, stdout, stderr) \<Rightarrow>
          if result \<noteq> 0 then Inl (RuntimeError (''version query failed: '' @ stderr))
          else Inr stdout)"

text \<open>
  The loop of \<open>get_version_tuple\<close>: numbers are converted until the first one that is not an
  integer.
\<close>

fun parse_numbers :: "(string \<Rightarrow> int option) \<Rightarrow> string list \<Rightarrow> int list" where
  "parse_numbers f [] = []"
| "parse_numbers f (n # ns) =
     (case f n of None \<Rightarrow> [] | Some i \<Rightarrow> i # parse_numbers f ns)"

text \<open>
  \<open>GCCToolchain.get_version_tuple\<close>: the third word of the first line. \<open>words[2]\<close> raises
  \<open>IndexError\<close> when the line has fewer than three words.
\<close>

definition gcc_get_version_tuple :: "host \<Rightarrow> toolchain \<Rightarrow> error + int list" where
  "gcc_get_version_tuple h self =
     (case get_version h self of Inl e \<Rightarrow> Inl e
      | Inr ver \<Rightarrow>
         (case split_char (CHR 0x0A) ver of [] \<Rightarrow> Inl IndexError
          | line0 # _ \<Rightarrow>
             (case drop 2 (split_ws line0) of [] \<Rightarrow> Inl IndexError
              | w2 # _ \<Rightarrow> Inr (parse_numbers (int_of_str h) (split_char (CHR ''.'') w2)))))"

text \<open>
  The value of \<open>abi_id\<close> is a Python list of two strings and, in the concrete classes, the
  list of strings \<open>self._cmdline([])\<close>.
\<close>

datatype pyobj = Str string | StrList "string list"

definition toolchain_abi_id :: "host \<Rightarrow> toolchain \<Rightarrow> error + pyobj list" where
  "toolchain_abi_id h self =
     (case get_version h self of Inl e \<Rightarrow> Inl e
      | Inr v \<Rightarrow> Inr [Str v, Str (sys_version h)])"

definition abi_id :: "backend \<Rightarrow> host \<Rightarrow> toolchain \<Rightarrow> error + pyobj list" where
  "abi_id b h self =
     (case toolchain_abi_id h self of Inl e \<Rightarrow> Inl e
      | Inr base \<Rightarrow>
         (case cmdline b self [] False of Inl e \<Rightarrow> Inl e
          | Inr c \<Rightarrow> Inr (base @ [StrList c])))"

section \<open>Optimization level\<close>

text \<open>
  The \<open>level\<close> argument is the string \<open>"debug"\<close> or an integer. A method is modelled by the
  receiver after the call together with its outcome; the keyword arguments \<open>debug\<close> and
  \<open>extra\<close> are not read by the source. \<open>GCCToolchain\<close> has no constructor of its own:
  \<open>self.copy(cflags=...)\<close> builds the new instance from the receiver's fields through
  \<open>Toolchain.__init__\<close> and the record base, which store them and change no list. The method
  of \<open>ISPCToolchain\<close> follows its constructor below.
\<close>

datatype level = Debug | Level int

definition remove_prefix :: "string list \<Rightarrow> string \<Rightarrow> string list" where
  "remove_prefix l pfx = filter (\<lambda>f. \<not> startswith f pfx) l"

definition gcc_with_optimization_level ::
  "host \<Rightarrow> toolchain \<Rightarrow> level \<Rightarrow> toolchain \<times> (error + toolchain)" where
  "gcc_with_optimization_level h self lvl =
     (let cflags' = foldl remove_prefix (cflags self)
                      [''-O'', ''-g'', ''-march'', ''-mtune'', ''-DNDEBUG'']
      in case lvl of
           Debug \<Rightarrow> (self, Inr (self\<lparr>cflags := cflags' @ [''-g'']\<rparr>))
         | Level n \<Rightarrow>
            (let oflags = [''-O'' @ dec_int n, ''-DNDEBUG'']
             in if n \<ge> 2
                then (case gcc_get_version_tuple h self of
                        Inl e \<Rightarrow> (self, Inl e)
                      | Inr t \<Rightarrow>
                         (self, Inr (self\<lparr>cflags := cflags' @ oflags
                            @ (if tuple_ge t [4, 3] then [''-march=native'', ''-mtune=native'']
                               else [])\<rparr>)))
                else (self, Inr (self\<lparr>cflags := cflags' @ oflags\<rparr>))))"

text \<open>\<open>GCCLikeToolchain.enable_debugging\<close> assigns to \<open>self.cflags\<close>: the receiver changes.\<close>

definition enable_debugging :: "toolchain \<Rightarrow> toolchain" where
  "enable_debugging self =
     self\<lparr>cflags := filter (\<lambda>f. \<not> startswith f ''-O'') (cflags self) @ [''-g'']\<rparr>"

section \<open>Dependency scan\<close>

text \<open>
  Modelled from the spec: \<open>join_continued_lines\<close> of \<open>codepy.tools\<close>, which is not among the
  sources. The specification says that backslash line continuations are folded into single
  logical lines: a line that ends in a backslash loses it and is joined with the line after it.
  A continuation on the last line has nothing to be joined with and only loses the backslash.
\<close>

fun join_continued_lines :: "string list \<Rightarrow> string list" where
  "join_continued_lines [] = []"
| "join_continued_lines (l # ls) =
     (if endswith l [CHR 0x5C]
      then (case join_continued_lines ls of
              [] \<Rightarrow> [butlast l]
            | m # ms \<Rightarrow> (butlast l @ m) # ms)
      else l # join_continued_lines ls)"

text \<open>
  \<open>GCCLikeToolchain.get_dependencies\<close>: \<open>flatten\<close> concatenates, and \<open>line.split()[2:]\<close> drops the
  first two words of a line.
\<close>

definition dependencies_cmdline :: "toolchain \<Rightarrow> string list \<Rightarrow> string list" where
  "dependencies_cmdline self source_files =
     [cc self] @ [''-M'']
     @ map (\<lambda>d. ''-D'' @ d) (defines' self)
     @ map (\<lambda>u. ''-U'' @ u) (undefines self)
     @ map (\<lambda>i. ''-I'' @ i) (include_dirs self)
     @ cflags self @ source_files"

definition get_dependencies :: "host \<Rightarrow> toolchain \<Rightarrow> string list \<Rightarrow> error + string set" where
  "get_dependencies h self source_files =
     (case call_capture_output h (dependencies_cmdline self source_files) of
        (result, stdout, stderr) \<Rightarrow>
          if result \<noteq> 0 then Inl (CompileError (''getting dependencies failed: '' @ stderr))
          else (let lines = join_continued_lines (split_char (CHR 0x0A) stdout)
                in Inr (set (concat (map (\<lambda>line. drop 2 (split_ws line)) lines)))))"

section \<open>Building\<close>

text \<open>
  A build prints and may raise: its value is the list of lines printed, each with the stream
  it goes to, and the outcome.
\<close>

datatype stream = Stdout | Stderr

type_synonym printed = "(stream \<times> string) list"

text \<open>
  The part the three build methods of \<open>GCCLikeToolchain\<close> have in common once the command line
  is there: echo it in debug mode, run it with \<open>call\<close>, and on a non-zero exit code print the
  failed invocation to standard error and raise.
\<close>

definition invoke :: "host \<Rightarrow> string list \<Rightarrow> bool \<Rightarrow> printed \<times> (error + unit)" where
  "invoke h cc_cmdline debug =
     (let echo = (if debug then [(Stdout, join '' '' cc_cmdline)] else []);
          result = call h cc_cmdline
      in if result \<noteq> 0
         then (echo @ [(Stderr, ''FAILED compiler invocation:'' @ join '' '' cc_cmdline)],
               Inl (CompileError ''module compilation failed''))
         else (echo, Inr ()))"

definition gcclike_build_object ::
  "backend \<Rightarrow> host \<Rightarrow> toolchain \<Rightarrow> string \<Rightarrow> string list \<Rightarrow> bool \<Rightarrow> printed \<times> (error + unit)" where
  "gcclike_build_object b h self ext_file source_files debug =
     (case cmdline b self source_files True of Inl e \<Rightarrow> ([], Inl e)
      | Inr c \<Rightarrow> invoke h (c @ [''-o'', ext_file]) debug)"

definition gcclike_build_extension ::
  "backend \<Rightarrow> host \<Rightarrow> toolchain \<Rightarrow> string \<Rightarrow> string list \<Rightarrow> bool \<Rightarrow> printed \<times> (error + unit)" where
  "gcclike_build_extension b h self ext_file source_files debug =
     (case cmdline b self source_files False of Inl e \<Rightarrow> ([], Inl e)
      | Inr c \<Rightarrow> invoke h (c @ [''-o'', ext_file]) debug)"

definition gcclike_link_extension ::
  "backend \<Rightarrow> host \<Rightarrow> toolchain \<Rightarrow> string \<Rightarrow> string list \<Rightarrow> bool \<Rightarrow> printed \<times> (error + unit)" where
  "gcclike_link_extension b h self ext_file object_files debug =
     (case cmdline b self object_files False of Inl e \<Rightarrow> ([], Inl e)
      | Inr c \<Rightarrow> invoke h (c @ [''-o'', ext_file]) debug)"

text \<open>
  \<open>NVCCToolchain.build_object\<close> captures the output, prints it, and sets the result to 1 when
  the captured standard error contains \<open>error\<close>.
\<close>

definition nvcc_build_object ::
  "host \<Rightarrow> toolchain \<Rightarrow> string \<Rightarrow> string list \<Rightarrow> bool \<Rightarrow> printed \<times> (error + unit)" where
  "nvcc_build_object h self ext_file source_files debug =
     (let cc_cmdline = nvcc_cmdline self source_files True @ [''-o'', ext_file];
          echo = (if debug then [(Stdout, join '' '' cc_cmdline)] else [])
      in case call_capture_output h cc_cmdline of
           (result, stdout, stderr) \<Rightarrow>
             (let out = echo @ [(Stdout, stderr), (Stdout, stdout)];
                  result' = (if contains stderr ''error'' then 1 else result)
              in if result' \<noteq> 0
                 then (out @ [(Stderr, ''FAILED compiler invocation:'' @ join '' '' cc_cmdline)],
                       Inl (CompileError ''module compilation failed''))
                 else (out, Inr ())))"

text \<open>
  \<open>ISPCToolchain.build_extension\<close>. The generator handed to \<open>any\<close> is
  \<open>file.endswith('tasksys.cpp') for f in source_files\<close>: its loop variable is \<open>f\<close>, and the name
  \<open>file\<close> is bound nowhere in the module, so evaluating the element expression raises
  \<open>NameError\<close> (where the interpreter has a builtin type named \<open>file\<close>, the lookup of
  \<open>endswith\<close> on it raises instead). \<open>any\<close> takes the elements one by one and stops at the
  first that is true.
\<close>

definition file_endswith :: "string \<Rightarrow> error + bool" where
  "file_endswith sfx = Inl (NameError ''file'')"

fun py_any :: "(error + bool) list \<Rightarrow> error + bool" where
  "py_any [] = Inr False"
| "py_any (Inl e # rest) = Inl e"
| "py_any (Inr v # rest) = (if v then Inr True else py_any rest)"

text \<open>\<open>os.path.join\<close> on a POSIX host.\<close>

definition path_join2 :: "string \<Rightarrow> string \<Rightarrow> string" where
  "path_join2 path b =
     (if startswith b ''/'' then b
      else if path = [] \<or> endswith path ''/'' then path @ b
      else path @ ''/'' @ b)"

definition path_join :: "string \<Rightarrow> string list \<Rightarrow> string" where
  "path_join a ps = foldl path_join2 a ps"

definition ispc_build_extension ::
  "host \<Rightarrow> toolchain \<Rightarrow> string \<Rightarrow> string list \<Rightarrow> bool \<Rightarrow> printed \<times> (error + unit)" where
  "ispc_build_extension h self ext_file source_files debug =
     (case py_any (map (\<lambda>f. file_endswith ''tasksys.cpp'') source_files) of
        Inl e \<Rightarrow> ([], Inl e)
      | Inr found \<Rightarrow>
         (let note = (if \<not> found \<and> debug
                      then [(Stdout, ''Adding system tasksys.cpp to source files'')] else []);
              current_dir = module_path h;
              source_files' =
                (if \<not> found
                 then source_files @ [path_join current_dir [''include'', ''codepy'' @ ''tasksys.cpp'']]
                 else source_files)
          in case gcclike_build_extension ISPC h self ext_file source_files' False of
               (out, r) \<Rightarrow> (note @ out, r)))"

text \<open>The three build methods, dispatched on the class of the receiver.\<close>

definition build_object ::
  "backend \<Rightarrow> host \<Rightarrow> toolchain \<Rightarrow> string \<Rightarrow> string list \<Rightarrow> bool \<Rightarrow> printed \<times> (error + unit)" where
  "build_object b h self ext_file source_files debug =
     (case b of NVCC \<Rightarrow> nvcc_build_object h self ext_file source_files debug
      | _ \<Rightarrow> gcclike_build_object b h self ext_file source_files debug)"

definition build_extension ::
  "backend \<Rightarrow> host \<Rightarrow> toolchain \<Rightarrow> string \<Rightarrow> string list \<Rightarrow> bool \<Rightarrow> printed \<times> (error + unit)" where
  "build_extension b h self ext_file source_files debug =
     (case b of ISPC \<Rightarrow> ispc_build_extension h self ext_file source_files debug
      | _ \<Rightarrow> gcclike_build_extension b h self ext_file source_files debug)"

definition link_extension ::
  "backend \<Rightarrow> host \<Rightarrow> toolchain \<Rightarrow> string \<Rightarrow> string list \<Rightarrow> bool \<Rightarrow> printed \<times> (error + unit)" where
  "link_extension b h self ext_file object_files debug =
     gcclike_link_extension b h self ext_file object_files debug"

section \<open>The constructor of \<open>ISPCToolchain\<close>\<close>

text \<open>
  The keyword arguments the constructor pops are optional; the target name and the two widths
  may be a string, an integer or \<open>None\<close>. The keyword arguments it does not pop are passed on
  as they are and are the fields of \<open>kw_rest\<close>; \<open>Toolchain.__init__\<close> supplies an empty
  \<open>features\<close> set when none is given.
\<close>

datatype pyval = PyNone | PyInt int | PyStr string

fun truthy :: "pyval \<Rightarrow> bool" where
  "truthy PyNone = False"
| "truthy (PyInt n) = (n \<noteq> 0)"
| "truthy (PyStr s) = (s \<noteq> [])"

fun py_str :: "pyval \<Rightarrow> string" where
  "py_str PyNone = ''None''"
| "py_str (PyInt n) = dec_int n"
| "py_str (PyStr s) = s"

record ispc_kwargs =
  kw_cc :: "string option"
  kw_cpp :: "string option"
  kw_ld :: "string option"
  kw_use_openmp :: "bool option"
  kw_defines :: "string list option"
  kw_libraries :: "string list option"
  kw_target :: "pyval option"
  kw_vector_width :: "pyval option"
  kw_addressing_width :: "pyval option"
  kw_cppflags :: "string list option"
  kw_cflags :: "string list option"
  kw_features :: "string set option"
  kw_rest :: toolchain

definition pop :: "'a option \<Rightarrow> 'a \<Rightarrow> 'a" where
  "pop v dflt = (case v of None \<Rightarrow> dflt | Some x \<Rightarrow> x)"

fun first_match :: "(string \<Rightarrow> 'a option) \<Rightarrow> string list \<Rightarrow> 'a option" where
  "first_match f [] = None"
| "first_match f (l # ls) = (case f l of Some g \<Rightarrow> Some g | None \<Rightarrow> first_match f ls)"

text \<open>
  The target flags for a target other than \<open>host\<close>: when one of the three values is missing,
  the default target is read from the diagnostics of a probe compilation.
\<close>

definition ispc_target_flags :: "host \<Rightarrow> pyval \<Rightarrow> pyval \<Rightarrow> pyval \<Rightarrow> error + string list" where
  "ispc_target_flags h target_name vector_width addressing_width =
     (let fmt = (\<lambda>t a w. [''--target'', py_str t @ ''-i'' @ py_str a @ ''x'' @ py_str w])
      in if \<not> list_all truthy [target_name, vector_width, addressing_width]
         then (case call_capture_output h [''ispc'', tmp_name h] of
                 (result, _, stderr) \<Rightarrow>
                   if result \<noteq> 0 then Inl (RuntimeError (''version query failed: '' @ stderr))
                   else (case first_match (re_search_target h) (split_char (CHR 0x0A) stderr) of
                           None \<Rightarrow> Inr (fmt target_name addressing_width vector_width)
                         | Some (target, addressing, width) \<Rightarrow>
                            Inr (fmt (if \<not> truthy target_name then PyStr target else target_name)
                                     (if \<not> truthy addressing_width then PyStr addressing
                                      else addressing_width)
                                     (if \<not> truthy vector_width then PyStr width
                                      else vector_width))))
         else Inr (fmt target_name addressing_width vector_width))"

text \<open>
  \<open>defines += ...\<close>, \<open>libraries += ...\<close> and \<open>cflags += ...\<close> extend in place the list that
  was popped from the keyword arguments: a list the caller passed has changed when the
  constructor is left, also when it is left by an exception. \<open>init_lists\<close> holds the three
  lists as they are then.
\<close>

record init_lists =
  defines_list :: "string list"
  libraries_list :: "string list"
  cflags_list :: "string list"

text \<open>
  Lines 399 to 460 of the constructor: the lists in place, and the keyword arguments after
  \<open>kwargs.update\<close>, with which line 462 calls the constructor of the base class (or the
  exception of the target probe). An absent \<open>features\<close> entry is the empty set, which
  \<open>Toolchain.__init__\<close> supplies.
\<close>

definition ispc_init_kwargs :: "host \<Rightarrow> ispc_kwargs \<Rightarrow> init_lists \<times> (error + toolchain)" where
  "ispc_init_kwargs h kw =
     (let cc0 = pop (kw_cc kw) ''ispc'';
          cpp0 = pop (kw_cpp kw) ''g++'';
          ld0 = pop (kw_ld kw) ''ld'';
          use_openmp = pop (kw_use_openmp kw) True;
          defines0 = pop (kw_defines kw) [];
          libraries0 = pop (kw_libraries kw) [];
          defines1 = (if use_openmp then defines0 @ [''ISPC_USE_OMP'']
                      else defines0 @ [''ISPC_USE_PTHREADS'']);
          libraries1 = (if use_openmp then libraries0 @ [''-fopenmp'']
                        else libraries0 @ map (\<lambda>c. [c]) ''pthreads'');
          target_name = pop (kw_target kw) (PyStr ''host'');
          vector_width = pop (kw_vector_width kw) PyNone;
          addressing_width = pop (kw_addressing_width kw) PyNone
      in case (if target_name = PyStr ''host'' then Inr [''--target'', py_str target_name]
               else ispc_target_flags h target_name vector_width addressing_width) of
           Inl e \<Rightarrow>
            (\<lparr>defines_list = defines1, libraries_list = libraries1,
              cflags_list = pop (kw_cflags kw) [''--pic'']\<rparr>, Inl e)
         | Inr target_flags \<Rightarrow>
            (let cppflags0 = pop (kw_cppflags kw) [''-fPIC''];
                 cflags0 = pop (kw_cflags kw) [''--pic''] @ target_flags
             in (\<lparr>defines_list = defines1, libraries_list = libraries1, cflags_list = cflags0\<rparr>,
                 Inr ((kw_rest kw)\<lparr>cc := cc0, cpp := cpp0, ld := ld0,
                        cflags := cflags0, cppflags := cppflags0,
                        defines' := defines1, libraries := libraries1,
                        features := pop (kw_features kw) {}\<rparr>))))"

text \<open>
  Line 462, \<open>super(GCCLikeToolchain, self).__init__(self, *args, **kwargs)\<close>, passes the object
  under construction once more, as the first positional argument. \<open>Toolchain.__init__\<close> hands
  its arguments on to the record base (\<open>pytools.Record\<close>, outside the repository), whose one
  positional parameter is a dictionary of values that it merges into the keyword arguments
  with \<open>dict.update\<close>. The object is neither a mapping nor iterable, so the call raises
  \<open>TypeError\<close>, whatever the keyword arguments are.
\<close>

definition toolchain_init_with_self :: "toolchain \<Rightarrow> error + toolchain" where
  "toolchain_init_with_self kwargs = Inl TypeError"

text \<open>\<open>ISPCToolchain.__init__\<close>: the lists in place and the outcome.\<close>

definition ispc_init :: "host \<Rightarrow> ispc_kwargs \<Rightarrow> init_lists \<times> (error + toolchain)" where
  "ispc_init h kw =
     (case ispc_init_kwargs h kw of
        (inplace, Inl e) \<Rightarrow> (inplace, Inl e)
      | (inplace, Inr kwargs) \<Rightarrow> (inplace, toolchain_init_with_self kwargs))"

text \<open>
  \<open>ISPCToolchain.with_optimization_level\<close> ends in \<open>self.copy(cflags=cflags + oflags)\<close>. The
  \<open>copy\<close> of the record base builds a new instance of the receiver's class from the
  receiver's fields and the overrides, so it runs the constructor above: with the receiver's
  own \<open>defines\<close> and \<open>libraries\<close> lists (they are passed, not copied), with the new
  \<open>cflags\<close> list, and without \<open>use_openmp\<close>, \<open>target\<close> or the widths, which the constructor
  popped and which are no fields.
\<close>

definition copy_kwargs :: "toolchain \<Rightarrow> string list \<Rightarrow> ispc_kwargs" where
  "copy_kwargs self new_cflags =
     \<lparr>kw_cc = Some (cc self), kw_cpp = Some (cpp self), kw_ld = Some (ld self),
      kw_use_openmp = None,
      kw_defines = Some (defines' self), kw_libraries = Some (libraries self),
      kw_target = None, kw_vector_width = None, kw_addressing_width = None,
      kw_cppflags = Some (cppflags self), kw_cflags = Some new_cflags,
      kw_features = Some (features self), kw_rest = self\<rparr>"

definition ispc_with_optimization_level ::
  "host \<Rightarrow> toolchain \<Rightarrow> level \<Rightarrow> toolchain \<times> (error + toolchain)" where
  "ispc_with_optimization_level h self lvl =
     (let cflags' = foldl remove_prefix (cflags self) [''-O'', ''-g'', ''-DNDEBUG''];
          oflags = (case lvl of Debug \<Rightarrow> [''-g'']
                    | Level n \<Rightarrow> [''-O'' @ dec_int n, ''-DNDEBUG''])
      in case ispc_init h (copy_kwargs self (cflags' @ oflags)) of
           (inplace, outcome) \<Rightarrow>
             (self\<lparr>defines' := defines_list inplace, libraries := libraries_list inplace\<rparr>,
              outcome))"

section \<open>Example hosts and configurations\<close>

text \<open>
  Concrete inputs on which the theorems below are instantiated. \<open>decimal\<close> reads a
  non-empty string of ASCII digits, as \<open>int\<close> does.
\<close>

fun decimal_acc :: "int \<Rightarrow> string \<Rightarrow> int option" where
  "decimal_acc acc [] = Some acc"
| "decimal_acc acc (c # cs) =
     (if 48 \<le> (of_char c :: nat) \<and> (of_char c :: nat) \<le> 57
      then decimal_acc (10 * acc + int (of_char c - 48)) cs else None)"

definition decimal :: "string \<Rightarrow> int option" where
  "decimal s = (if s = [] then None else decimal_acc 0 s)"

definition example_host :: host where
  "example_host =
     \<lparr>run = (\<lambda>cmd. (0, ''gcc (GCC) 4.8.2'', [])),
      sys_version = ''3.6.0 (default)'',
      int_of_str = decimal,
      re_search_target = (\<lambda>line. None),
      module_path = ''/site/codepy/toolchain.py'',
      tmp_name = ''/tmp/loopy0''\<rparr>"

definition failing_host :: host where
  "failing_host = example_host\<lparr>run := (\<lambda>cmd. (1, [], ''fatal: no such file''))\<rparr>"

definition quiet_error_host :: host where
  "quiet_error_host =
     example_host\<lparr>run := (\<lambda>cmd. (0, [], ''k.cu(3): error: identifier x is undefined''))\<rparr>"

definition deps_host :: host where
  "deps_host =
     example_host\<lparr>run := (\<lambda>cmd. (0, ''out.o: a.h b.h '' @ [CHR 0x5C, CHR 0x0A] @ ''c.h'', []))\<rparr>"

definition example_toolchain :: toolchain where
  "example_toolchain =
     \<lparr>cc = ''gcc'', cpp = ''g++'', ld = ''ld'',
      cflags = [''-O2'', ''-Wall''], cppflags = [''-fPIC''], ldflags = [''-shared''],
      defines' = [''NDEBUG''], undefines = [],
      include_dirs = [''/usr/include''], library_dirs = [''/usr/lib''],
      libraries = [''m''], so_ext = ''.so'', o_ext = ''.o'',
      features = {''math''}\<rparr>"

definition example_ispc :: toolchain where
  "example_ispc =
     \<lparr>cc = ''ispc'', cpp = ''g++'', ld = ''ld'',
      cflags = [''--pic'', ''--target'', ''host''], cppflags = [''-fPIC''], ldflags = [],
      defines' = [''ISPC_USE_OMP''], undefines = [],
      include_dirs = [], library_dirs = [],
      libraries = [''-fopenmp''], so_ext = ''.so'', o_ext = ''.o'',
      features = {}\<rparr>"

definition abi_left :: toolchain where
  "abi_left = example_toolchain\<lparr>cflags := [''-DX''], ldflags := [], defines' := []\<rparr>"

definition abi_right :: toolchain where
  "abi_right = example_toolchain\<lparr>cflags := [], ldflags := [], defines' := [''X'']\<rparr>"

definition example_nvcc :: toolchain where
  "example_nvcc = example_toolchain\<lparr>cc := ''nvcc'', cflags := [''-Xcompiler'', ''-fPIC'']\<rparr>"

definition pthreads_kwargs :: ispc_kwargs where
  "pthreads_kwargs =
     \<lparr>kw_cc = None, kw_cpp = None, kw_ld = None, kw_use_openmp = Some False,
      kw_defines = None, kw_libraries = Some [''m''], kw_target = None,
      kw_vector_width = None, kw_addressing_width = None,
      kw_cppflags = None, kw_cflags = None, kw_features = None,
      kw_rest = example_ispc\<rparr>"

text \<open>
  A logical line of dependency output, \<open>target: dep1 dep2 ...\<close>: the target, the
  dependencies each with the whitespace in front of it, and the whitespace at the end.
\<close>

definition dep_line :: "string \<Rightarrow> (string \<times> string) list \<Rightarrow> string \<Rightarrow> string" where
  "dep_line target deps trail =
     target @ '':'' @ concat (map (\<lambda>(sep, d). sep @ d) deps) @ trail"

definition well_formed_line :: "string \<Rightarrow> (string \<times> string) list \<Rightarrow> string \<Rightarrow> bool" where
  "well_formed_line target deps trail =
     (list_all (\<lambda>c. \<not> is_space c) target
      \<and> list_all (\<lambda>(sep, d). sep \<noteq> [] \<and> list_all is_space sep
                             \<and> d \<noteq> [] \<and> list_all (\<lambda>c. \<not> is_space c) d) deps
      \<and> list_all is_space trail)"

section \<open>Properties of \<open>add_library\<close>\<close>

lemma append_new_decomp:
  "\<exists>new. append_new xs ds = xs @ new \<and> distinct new \<and> set new = set ds - set xs \<and> subseq new ds"
proof (induction ds arbitrary: xs)
  case Nil
  then show ?case by simp
next
  case (Cons d ds)
  show ?case
  proof (cases "d \<in> set xs")
    case True
    from Cons.IH [of xs] obtain new where
      n: "append_new xs ds = xs @ new" "distinct new" "set new = set ds - set xs" "subseq new ds"
      by blast
    have "subseq new (d # ds)" using n(4) by (rule list_emb_Cons)
    moreover have "set new = set (d # ds) - set xs" using n(3) True by auto
    ultimately show ?thesis using n(1,2) True by auto
  next
    case False
    from Cons.IH [of "xs @ [d]"] obtain new where
      n: "append_new (xs @ [d]) ds = (xs @ [d]) @ new" "distinct new"
         "set new = set ds - set (xs @ [d])" "subseq new ds"
      by blast
    have "append_new xs (d # ds) = xs @ (d # new)" using n(1) False by simp
    moreover have "distinct (d # new)" using n(2,3) by auto
    moreover have "set (d # new) = set (d # ds) - set xs" using n(3) False by auto
    moreover have "subseq (d # new) (d # ds)" using n(4) by simp
    ultimately show ?thesis by blast
  qed
qed

lemma append_new_props:
  "prefix xs (append_new xs ds)"
  "set (drop (length xs) (append_new xs ds)) = set ds - set xs"
  "subseq (drop (length xs) (append_new xs ds)) ds"
  "distinct xs \<Longrightarrow> distinct (append_new xs ds)"
proof -
  obtain new where n: "append_new xs ds = xs @ new" "distinct new"
    "set new = set ds - set xs" "subseq new ds"
    using append_new_decomp [of xs ds] by blast
  show "prefix xs (append_new xs ds)" by (simp add: n(1))
  show "set (drop (length xs) (append_new xs ds)) = set ds - set xs" by (simp add: n(1,3))
  show "subseq (drop (length xs) (append_new xs ds)) ds" by (simp add: n(1,4))
  show "distinct xs \<Longrightarrow> distinct (append_new xs ds)" using n(2,3) by (auto simp: n(1))
qed

text \<open>
  C3. When the feature is already in the features set, \<open>add_library\<close> returns the
  configuration as it is, every field unchanged; and a second call with the same feature and
  the same arguments leaves the configuration as the first call left it.
\<close>

theorem add_library_idempotent:
  "(feature \<in> features self \<longrightarrow> add_library self feature idirs ldirs libs = self)
   \<and> add_library (add_library self feature idirs ldirs libs) feature idirs ldirs libs
       = add_library self feature idirs ldirs libs"
  by (simp add: add_library_def)

theorem add_library_idempotent_witness:
  "''math'' \<in> features example_toolchain
   \<and> add_library example_toolchain ''math'' [''/opt/include''] [''/opt/lib''] [''gsl'']
       = example_toolchain"
  using add_library_idempotent [of "''math''" example_toolchain
            "[''/opt/include'']" "[''/opt/lib'']" "[''gsl'']"]
  by (simp add: example_toolchain_def)

lemma ispc_cmdline_link_suffix:
  assumes "ispc_cmdline s files False = Inr c"
  shows "suffix (map (\<lambda>lib. if \<not> lib = ''-fopenmp'' then ''-l'' @ lib else ''-fopenmp'')
                  (libraries s)) c"
proof -
  let ?pre = "[get_cc s files False]
      @ (if get_cc s files False \<noteq> cc s then cppflags s @ [] else cflags s) @ ldflags s
      @ map (\<lambda>d. ''-D'' @ d) (defines' s) @ map (\<lambda>u. ''-U'' @ u) (undefines s)
      @ map (\<lambda>i. ''-I'' @ i) (include_dirs s) @ files
      @ map (\<lambda>ldir. ''-L'' @ ldir) (library_dirs s)"
  have "c = ?pre @ map (\<lambda>lib. if \<not> lib = ''-fopenmp'' then ''-l'' @ lib else ''-fopenmp'')
                     (libraries s)"
    using assms by (auto simp: ispc_cmdline_def Let_def split: sum.splits if_splits)
  then show ?thesis by (rule suffixI)
qed

text \<open>
  C4. For a configuration whose include and library directory lists have no duplicates and a
  feature not yet recorded, \<open>add_library\<close> records the feature, keeps the directories that
  were there as a prefix in their order, appends exactly the given directories that were not
  present (in the order given, each once), creates no duplicate, and sets the libraries to the
  given ones followed by the earlier ones; the link command line of every backend (on the
  ISPC backend, when it is built) therefore ends in the library flags of the new libraries
  followed by those of the earlier ones.
\<close>

theorem add_library_new_feature:
  assumes "feature \<notin> features self"
    and "distinct (include_dirs self)" and "distinct (library_dirs self)"
  shows "features (add_library self feature idirs ldirs libs) = insert feature (features self)
    \<and> prefix (include_dirs self) (include_dirs (add_library self feature idirs ldirs libs))
    \<and> distinct (include_dirs (add_library self feature idirs ldirs libs))
    \<and> set (drop (length (include_dirs self))
            (include_dirs (add_library self feature idirs ldirs libs)))
        = set idirs - set (include_dirs self)
    \<and> subseq (drop (length (include_dirs self))
            (include_dirs (add_library self feature idirs ldirs libs))) idirs
    \<and> prefix (library_dirs self) (library_dirs (add_library self feature idirs ldirs libs))
    \<and> distinct (library_dirs (add_library self feature idirs ldirs libs))
    \<and> set (drop (length (library_dirs self))
            (library_dirs (add_library self feature idirs ldirs libs)))
        = set ldirs - set (library_dirs self)
    \<and> subseq (drop (length (library_dirs self))
            (library_dirs (add_library self feature idirs ldirs libs))) ldirs
    \<and> libraries (add_library self feature idirs ldirs libs) = libs @ libraries self
    \<and> suffix (map (\<lambda>lib. ''-l'' @ lib) libs @ map (\<lambda>lib. ''-l'' @ lib) (libraries self))
         (gcc_cmdline (add_library self feature idirs ldirs libs) files False)
    \<and> suffix (map (\<lambda>lib. ''-l'' @ lib) libs @ map (\<lambda>lib. ''-l'' @ lib) (libraries self))
         (nvcc_cmdline (add_library self feature idirs ldirs libs) files False)
    \<and> (ispc_cmdline (add_library self feature idirs ldirs libs) files False = Inr c \<longrightarrow>
         suffix (map (\<lambda>lib. if \<not> lib = ''-fopenmp'' then ''-l'' @ lib else ''-fopenmp'') libs
                 @ map (\<lambda>lib. if \<not> lib = ''-fopenmp'' then ''-l'' @ lib else ''-fopenmp'')
                     (libraries self)) c)"
proof -
  let ?s = "add_library self feature idirs ldirs libs"
  have f: "features ?s = insert feature (features self)"
    and i: "include_dirs ?s = append_new (include_dirs self) idirs"
    and l: "library_dirs ?s = append_new (library_dirs self) ldirs"
    and b: "libraries ?s = libs @ libraries self"
    using assms(1) by (simp_all add: add_library_def)
  let ?pre = "[cc ?s] @ cflags ?s @ ldflags ?s
      @ map (\<lambda>d. ''-D'' @ d) (defines' ?s) @ map (\<lambda>u. ''-U'' @ u) (undefines ?s)
      @ map (\<lambda>i. ''-I'' @ i) (include_dirs ?s) @ files
      @ map (\<lambda>ldir. ''-L'' @ ldir) (library_dirs ?s)"
  let ?libs = "map (\<lambda>lib. ''-l'' @ lib) libs @ map (\<lambda>lib. ''-l'' @ lib) (libraries self)"
  have "gcc_cmdline ?s files False = ?pre @ ?libs"
    by (simp add: gcc_cmdline_def b)
  then have g: "suffix ?libs (gcc_cmdline ?s files False)"
    by (rule suffixI)
  have "nvcc_cmdline ?s files False = ?pre @ ?libs"
    by (simp add: nvcc_cmdline_def b)
  then have n: "suffix ?libs (nvcc_cmdline ?s files False)"
    by (rule suffixI)
  have p: "ispc_cmdline ?s files False = Inr c \<longrightarrow>
         suffix (map (\<lambda>lib. if \<not> lib = ''-fopenmp'' then ''-l'' @ lib else ''-fopenmp'') libs
                 @ map (\<lambda>lib. if \<not> lib = ''-fopenmp'' then ''-l'' @ lib else ''-fopenmp'')
                     (libraries self)) c"
    using ispc_cmdline_link_suffix [of ?s files c] by (simp add: b)
  show ?thesis
    unfolding f i l b
    using append_new_props [of "include_dirs self" idirs]
      append_new_props [of "library_dirs self" ldirs] assms(2,3) g n p
    by blast
qed

theorem add_library_new_feature_witness:
  "''gsl'' \<notin> features example_toolchain
   \<and> distinct (include_dirs example_toolchain) \<and> distinct (library_dirs example_toolchain)
   \<and> include_dirs (add_library example_toolchain ''gsl''
        [''/usr/include'', ''/opt/include'', ''/opt/include''] [''/opt/lib''] [''gsl'', ''gslcblas''])
       = [''/usr/include'', ''/opt/include'']
   \<and> distinct (include_dirs (add_library example_toolchain ''gsl''
        [''/usr/include'', ''/opt/include'', ''/opt/include''] [''/opt/lib''] [''gsl'', ''gslcblas'']))
   \<and> libraries (add_library example_toolchain ''gsl''
        [''/usr/include'', ''/opt/include'', ''/opt/include''] [''/opt/lib''] [''gsl'', ''gslcblas''])
       = [''gsl'', ''gslcblas'', ''m'']"
  using add_library_new_feature [of "''gsl''" example_toolchain
      "[''/usr/include'', ''/opt/include'', ''/opt/include'']" "[''/opt/lib'']"
      "[''gsl'', ''gslcblas'']" "[]" "[]"]
  by (simp add: example_toolchain_def add_library_def)

section \<open>Properties of the ABI identifier\<close>

text \<open>The baseline command line \<open>self._cmdline([])\<close>, for each backend.\<close>

lemma cmdline_nil:
  "cmdline b self [] False =
     Inr (cc self # cflags self @ ldflags self
          @ map (\<lambda>d. ''-D'' @ d) (defines' self)
          @ map (\<lambda>u. ''-U'' @ u) (undefines self)
          @ map (\<lambda>i. ''-I'' @ i) (include_dirs self)
          @ map (\<lambda>ldir. ''-L'' @ ldir) (library_dirs self)
          @ map (\<lambda>lib. if b = ISPC \<and> lib = ''-fopenmp'' then ''-fopenmp'' else ''-l'' @ lib)
              (libraries self))"
proof (cases b)
  case GCC
  then show ?thesis by (simp add: cmdline_def gcc_cmdline_def)
next
  case NVCC
  then show ?thesis by (simp add: cmdline_def nvcc_cmdline_def)
next
  case ISPC
  have "get_cc self [] False = cc self" by (simp add: get_cc_def)
  then show ?thesis using ISPC by (simp add: cmdline_def ispc_cmdline_def Let_def)
qed

lemma inj_flag2: "inj (\<lambda>d::string. a # b # d)"
  by (rule injI) simp

lemma inj_lib_flag:
  "inj (\<lambda>lib. if b = ISPC \<and> lib = ''-fopenmp'' then ''-fopenmp'' else ''-l'' @ lib)"
  by (rule injI) (auto split: if_splits)

lemma inj_lib_flag':
  "inj (\<lambda>lib. if b = ISPC \<and> lib = ''-fopenmp'' then ''-fopenmp'' else CHR ''-'' # CHR ''l'' # lib)"
  by (rule injI) (auto split: if_splits)

lemma abi_id_eq_iff:
  assumes "cc t = cc s" and "fst (run h [cc s, ''--version'']) = 0"
  shows "abi_id b h t = abi_id b h s \<longleftrightarrow> cmdline b t [] False = cmdline b s [] False"
proof -
  obtain c1 where c1: "cmdline b t [] False = Inr c1" by (simp add: cmdline_nil)
  obtain c2 where c2: "cmdline b s [] False = Inr c2" by (simp add: cmdline_nil)
  obtain r out err where r: "run h [cc s, ''--version''] = (r, out, err)"
    by (cases "run h [cc s, ''--version'']") auto
  with assms(2) have r0: "r = 0" by simp
  have "abi_id b h t = Inr [Str out, Str (sys_version h), StrList c1]"
    using r r0 c1 assms(1)
    by (simp add: abi_id_def toolchain_abi_id_def get_version_def call_capture_output_def)
  moreover have "abi_id b h s = Inr [Str out, Str (sys_version h), StrList c2]"
    using r r0 c2
    by (simp add: abi_id_def toolchain_abi_id_def get_version_def call_capture_output_def)
  ultimately show ?thesis using c1 c2 by simp
qed

lemma abi_id_ignores_features: "abi_id b h (self\<lparr>features := fs\<rparr>) = abi_id b h self"
proof -
  have "cmdline b (self\<lparr>features := fs\<rparr>) [] False = cmdline b self [] False"
    by (simp add: cmdline_nil)
  then show ?thesis
    by (simp add: abi_id_def toolchain_abi_id_def get_version_def cong: sum.case_cong)
qed

lemma nil_cflags:
  "cmdline b (self\<lparr>cflags := x\<rparr>) [] False = cmdline b self [] False \<longleftrightarrow> x = cflags self"
  by (simp add: cmdline_nil)

lemma nil_ldflags:
  "cmdline b (self\<lparr>ldflags := x\<rparr>) [] False = cmdline b self [] False \<longleftrightarrow> x = ldflags self"
  by (simp add: cmdline_nil)

lemma nil_defines:
  "cmdline b (self\<lparr>defines' := x\<rparr>) [] False = cmdline b self [] False \<longleftrightarrow> x = defines' self"
  by (simp add: cmdline_nil inj_map_eq_map [OF inj_flag2])

lemma nil_undefines:
  "cmdline b (self\<lparr>undefines := x\<rparr>) [] False = cmdline b self [] False \<longleftrightarrow> x = undefines self"
  by (simp add: cmdline_nil inj_map_eq_map [OF inj_flag2])

lemma nil_include_dirs:
  "cmdline b (self\<lparr>include_dirs := x\<rparr>) [] False = cmdline b self [] False
     \<longleftrightarrow> x = include_dirs self"
  by (simp add: cmdline_nil inj_map_eq_map [OF inj_flag2])

lemma nil_library_dirs:
  "cmdline b (self\<lparr>library_dirs := x\<rparr>) [] False = cmdline b self [] False
     \<longleftrightarrow> x = library_dirs self"
  by (simp add: cmdline_nil inj_map_eq_map [OF inj_flag2])

lemma nil_libraries:
  "cmdline b (self\<lparr>libraries := x\<rparr>) [] False = cmdline b self [] False
     \<longleftrightarrow> x = libraries self"
  by (simp add: cmdline_nil inj_map_eq_map [OF inj_lib_flag] inj_map_eq_map [OF inj_lib_flag'])

text \<open>
  C2 (as stated, refuted). Two GCC configurations on the same host that differ in the
  compile flags and in the defines, and have the same ABI identifier: \<open>-DX\<close> as a compile
  flag and \<open>X\<close> as a define give the same baseline command line.
\<close>

theorem abi_id_counterexample:
  "cflags abi_left \<noteq> cflags abi_right \<and> defines' abi_left \<noteq> defines' abi_right
   \<and> abi_id GCC example_host abi_left = abi_id GCC example_host abi_right"
  by (simp add: abi_left_def abi_right_def example_toolchain_def example_host_def abi_id_def
      toolchain_abi_id_def get_version_def call_capture_output_def cmdline_def gcc_cmdline_def)

text \<open>
  C2 (amended). The ABI identifier does not depend on the features set. When the version
  query succeeds, changing exactly one of the compile flags, link flags, defines, undefines,
  include directories, library directories or libraries, all other fields kept, changes the
  ABI identifier, on every backend.
\<close>

theorem abi_id_features_and_single_field:
  "abi_id b h (self\<lparr>features := fs\<rparr>) = abi_id b h self
   \<and> (fst (run h [cc self, ''--version'']) = 0 \<longrightarrow>
        (cf \<noteq> cflags self \<longrightarrow> abi_id b h (self\<lparr>cflags := cf\<rparr>) \<noteq> abi_id b h self)
      \<and> (lf \<noteq> ldflags self \<longrightarrow> abi_id b h (self\<lparr>ldflags := lf\<rparr>) \<noteq> abi_id b h self)
      \<and> (ds \<noteq> defines' self \<longrightarrow> abi_id b h (self\<lparr>defines' := ds\<rparr>) \<noteq> abi_id b h self)
      \<and> (us \<noteq> undefines self \<longrightarrow> abi_id b h (self\<lparr>undefines := us\<rparr>) \<noteq> abi_id b h self)
      \<and> (ids \<noteq> include_dirs self \<longrightarrow>
            abi_id b h (self\<lparr>include_dirs := ids\<rparr>) \<noteq> abi_id b h self)
      \<and> (lds \<noteq> library_dirs self \<longrightarrow>
            abi_id b h (self\<lparr>library_dirs := lds\<rparr>) \<noteq> abi_id b h self)
      \<and> (libs \<noteq> libraries self \<longrightarrow>
            abi_id b h (self\<lparr>libraries := libs\<rparr>) \<noteq> abi_id b h self))"
proof (intro conjI impI)
  show "abi_id b h (self\<lparr>features := fs\<rparr>) = abi_id b h self"
    by (rule abi_id_ignores_features)
next
  assume v: "fst (run h [cc self, ''--version'']) = 0" and d: "cf \<noteq> cflags self"
  show "abi_id b h (self\<lparr>cflags := cf\<rparr>) \<noteq> abi_id b h self"
    using abi_id_eq_iff [where t = "self\<lparr>cflags := cf\<rparr>" and s = self and h = h and b = b] v d nil_cflags [where b = b and self = self and x = cf]
    by simp
next
  assume v: "fst (run h [cc self, ''--version'']) = 0" and d: "lf \<noteq> ldflags self"
  show "abi_id b h (self\<lparr>ldflags := lf\<rparr>) \<noteq> abi_id b h self"
    using abi_id_eq_iff [where t = "self\<lparr>ldflags := lf\<rparr>" and s = self and h = h and b = b] v d nil_ldflags [where b = b and self = self and x = lf]
    by simp
next
  assume v: "fst (run h [cc self, ''--version'']) = 0" and d: "ds \<noteq> defines' self"
  show "abi_id b h (self\<lparr>defines' := ds\<rparr>) \<noteq> abi_id b h self"
    using abi_id_eq_iff [where t = "self\<lparr>defines' := ds\<rparr>" and s = self and h = h and b = b] v d nil_defines [where b = b and self = self and x = ds]
    by simp
next
  assume v: "fst (run h [cc self, ''--version'']) = 0" and d: "us \<noteq> undefines self"
  show "abi_id b h (self\<lparr>undefines := us\<rparr>) \<noteq> abi_id b h self"
    using abi_id_eq_iff [where t = "self\<lparr>undefines := us\<rparr>" and s = self and h = h and b = b] v d nil_undefines [where b = b and self = self and x = us]
    by simp
next
  assume v: "fst (run h [cc self, ''--version'']) = 0" and d: "ids \<noteq> include_dirs self"
  show "abi_id b h (self\<lparr>include_dirs := ids\<rparr>) \<noteq> abi_id b h self"
    using abi_id_eq_iff [where t = "self\<lparr>include_dirs := ids\<rparr>" and s = self and h = h and b = b] v d
      nil_include_dirs [where b = b and self = self and x = ids]
    by simp
next
  assume v: "fst (run h [cc self, ''--version'']) = 0" and d: "lds \<noteq> library_dirs self"
  show "abi_id b h (self\<lparr>library_dirs := lds\<rparr>) \<noteq> abi_id b h self"
    using abi_id_eq_iff [where t = "self\<lparr>library_dirs := lds\<rparr>" and s = self and h = h and b = b] v d
      nil_library_dirs [where b = b and self = self and x = lds]
    by simp
next
  assume v: "fst (run h [cc self, ''--version'']) = 0" and d: "libs \<noteq> libraries self"
  show "abi_id b h (self\<lparr>libraries := libs\<rparr>) \<noteq> abi_id b h self"
    using abi_id_eq_iff [where t = "self\<lparr>libraries := libs\<rparr>" and s = self and h = h and b = b] v d
      nil_libraries [where b = b and self = self and x = libs]
    by simp
qed

theorem abi_id_features_and_single_field_witness:
  "fst (run example_host [cc example_toolchain, ''--version'']) = 0
   \<and> [''-O3''] \<noteq> cflags example_toolchain
   \<and> abi_id GCC example_host (example_toolchain\<lparr>features := {}\<rparr>)
       = abi_id GCC example_host example_toolchain
   \<and> abi_id GCC example_host (example_toolchain\<lparr>cflags := [''-O3'']\<rparr>)
       \<noteq> abi_id GCC example_host example_toolchain"
  using abi_id_features_and_single_field [where b = GCC and h = example_host
      and self = example_toolchain and fs = "{}" and cf = "[''-O3'']"]
  by (simp add: example_host_def example_toolchain_def)

section \<open>Properties of \<open>with_optimization_level\<close>\<close>

lemma foldl_remove_prefix:
  "foldl remove_prefix l ps = filter (\<lambda>f. \<forall>p\<in>set ps. \<not> startswith f p) l"
proof (induction ps arbitrary: l)
  case Nil
  then show ?case by simp
next
  case (Cons p ps)
  show ?case
    by (simp add: Cons.IH) (simp add: remove_prefix_def)
qed

lemma strip_again:
  assumes "\<forall>f\<in>set added. \<exists>p\<in>set ps. startswith f p"
  shows "foldl remove_prefix (foldl remove_prefix l ps @ added) ps = foldl remove_prefix l ps"
proof -
  have "filter (\<lambda>f. \<forall>p\<in>set ps. \<not> startswith f p) added = []"
    using assms by (auto simp: filter_empty_conv)
  then show ?thesis by (simp add: foldl_remove_prefix)
qed

lemma startswith_append [simp]: "startswith (p @ s) p"
  by (simp add: startswith_def)

lemma startswith_self [simp]: "startswith p p"
  by (simp add: startswith_def)

lemma startswith_native [simp]:
  "startswith ''-march=native'' ''-march''" "startswith ''-mtune=native'' ''-mtune''"
  by (simp_all add: startswith_def)

text \<open>The flags a level emits on the GCC backend, given the version tuple when it is read.\<close>

lemma gcc_level_shape:
  assumes "snd (gcc_with_optimization_level h self lvl) = Inr t"
  shows "\<exists>added. t = self\<lparr>cflags := foldl remove_prefix (cflags self)
                        [''-O'', ''-g'', ''-march'', ''-mtune'', ''-DNDEBUG''] @ added\<rparr>
           \<and> set added \<subseteq> (case lvl of Debug \<Rightarrow> {''-g''}
                | Level n \<Rightarrow> {''-O'' @ dec_int n, ''-DNDEBUG'', ''-march=native'', ''-mtune=native''})"
proof (cases lvl)
  case Debug
  then show ?thesis using assms
    by (auto simp: gcc_with_optimization_level_def Let_def)
next
  case (Level n)
  show ?thesis
  proof (cases "n \<ge> 2")
    case False
    then show ?thesis using assms Level
      by (auto simp: gcc_with_optimization_level_def Let_def)
  next
    case True
    then obtain v where v: "gcc_get_version_tuple h self = Inr v"
      using assms Level
      by (cases "gcc_get_version_tuple h self")
         (auto simp: gcc_with_optimization_level_def Let_def)
    show ?thesis
    proof (cases "tuple_ge v [4, 3]")
      case True
      with v \<open>n \<ge> 2\<close> assms Level show ?thesis
        by (auto simp: gcc_with_optimization_level_def Let_def)
    next
      case False
      with v \<open>n \<ge> 2\<close> assms Level show ?thesis
        by (auto simp: gcc_with_optimization_level_def Let_def)
    qed
  qed
qed

lemma gcc_version_tuple_cc:
  "cc t = cc self \<Longrightarrow> gcc_get_version_tuple h t = gcc_get_version_tuple h self"
  by (simp add: gcc_get_version_tuple_def get_version_def)

lemma gcc_level_cong:
  assumes c: "cc t = cc self"
    and s: "foldl remove_prefix (cflags t) [''-O'', ''-g'', ''-march'', ''-mtune'', ''-DNDEBUG'']
            = foldl remove_prefix (cflags self) [''-O'', ''-g'', ''-march'', ''-mtune'', ''-DNDEBUG'']"
    and u: "\<And>X. t\<lparr>cflags := X\<rparr> = self\<lparr>cflags := X\<rparr>"
  shows "snd (gcc_with_optimization_level h t lvl) = snd (gcc_with_optimization_level h self lvl)"
proof -
  have v: "gcc_get_version_tuple h t = gcc_get_version_tuple h self"
    using c by (rule gcc_version_tuple_cc)
  show ?thesis
  proof (cases lvl)
    case Debug
    then show ?thesis
      unfolding gcc_with_optimization_level_def Let_def s u by simp
  next
    case (Level n)
    show ?thesis
    proof (cases "gcc_get_version_tuple h self")
      case (Inl e)
      with Level v show ?thesis
        unfolding gcc_with_optimization_level_def Let_def s u by simp
    next
      case (Inr w)
      with Level v show ?thesis
        unfolding gcc_with_optimization_level_def Let_def s u by simp
    qed
  qed
qed

lemma gcc_level_twice:
  assumes 1: "snd (gcc_with_optimization_level h self l1) = Inr t1"
  shows "snd (gcc_with_optimization_level h t1 l2) = snd (gcc_with_optimization_level h self l2)"
proof -
  let ?P = "[''-O'', ''-g'', ''-march'', ''-mtune'', ''-DNDEBUG'']"
  from gcc_level_shape [OF 1] obtain added where
    t1: "t1 = self\<lparr>cflags := foldl remove_prefix (cflags self) ?P @ added\<rparr>"
    and a: "set added \<subseteq> (case l1 of Debug \<Rightarrow> {''-g''}
                | Level n \<Rightarrow> {''-O'' @ dec_int n, ''-DNDEBUG'', ''-march=native'', ''-mtune=native''})"
    by blast
  have "\<forall>f\<in>set added. \<exists>p\<in>set ?P. startswith f p"
  proof
    fix f assume "f \<in> set added"
    with a have "f \<in> (case l1 of Debug \<Rightarrow> {''-g''}
                | Level n \<Rightarrow> {''-O'' @ dec_int n, ''-DNDEBUG'', ''-march=native'', ''-mtune=native''})"
      by (cases l1) auto
    then show "\<exists>p\<in>set ?P. startswith f p"
      by (cases l1) (auto simp: startswith_def)
  qed
  then have "foldl remove_prefix (foldl remove_prefix (cflags self) ?P @ added) ?P
             = foldl remove_prefix (cflags self) ?P"
    by (rule strip_again)
  then have s: "foldl remove_prefix (cflags t1) ?P = foldl remove_prefix (cflags self) ?P"
    by (simp add: t1 del: foldl.simps)
  show ?thesis
    by (rule gcc_level_cong) (simp_all add: s del: foldl.simps, simp_all add: t1)
qed

lemma stripped_flag_is_added:
  assumes "f \<in> set (foldl remove_prefix l ps @ added)" and "p \<in> set ps" and "startswith f p"
  shows "f \<in> set added"
  using assms by (auto simp: foldl_remove_prefix)

lemma gcc_level_receiver: "fst (gcc_with_optimization_level h self lvl) = self"
  by (simp add: gcc_with_optimization_level_def Let_def split: level.splits sum.splits)

lemma gcc_level_returns:
  assumes "gcc_get_version_tuple h self = Inr v \<or> lvl = Debug \<or> (lvl = Level n \<and> n < 2)"
  shows "\<exists>t. snd (gcc_with_optimization_level h self lvl) = Inr t"
  using assms
  by (auto simp: gcc_with_optimization_level_def Let_def split: level.splits)

lemma gcc_level_only_cflags:
  assumes "snd (gcc_with_optimization_level h self lvl) = Inr t"
  shows "t = self\<lparr>cflags := cflags t\<rparr>"
  using gcc_level_shape [OF assms] by auto

lemma gcc_level_flags:
  assumes r: "snd (gcc_with_optimization_level h self lvl) = Inr t"
    and f: "f \<in> set (cflags t)"
    and p: "startswith f ''-O'' \<or> startswith f ''-g'' \<or> startswith f ''-march''
            \<or> startswith f ''-mtune'' \<or> startswith f ''-DNDEBUG''"
  shows "f \<in> (case lvl of Debug \<Rightarrow> {''-g''}
              | Level n \<Rightarrow> {''-O'' @ dec_int n, ''-DNDEBUG'', ''-march=native'', ''-mtune=native''})"
proof -
  let ?P = "[''-O'', ''-g'', ''-march'', ''-mtune'', ''-DNDEBUG'']"
  from gcc_level_shape [OF r] obtain added where
    t: "t = self\<lparr>cflags := foldl remove_prefix (cflags self) ?P @ added\<rparr>"
    and a: "set added \<subseteq> (case lvl of Debug \<Rightarrow> {''-g''}
                | Level n \<Rightarrow> {''-O'' @ dec_int n, ''-DNDEBUG'', ''-march=native'', ''-mtune=native''})"
    by blast
  from p obtain q where q: "q \<in> set ?P" "startswith f q" by auto
  have "f \<in> set (foldl remove_prefix (cflags self) ?P @ added)"
    using f by (simp add: t del: foldl.simps)
  then have "f \<in> set added" using q by (rule stripped_flag_is_added)
  with a show ?thesis by blast
qed

text \<open>
  C5 (as stated, refuted). On the GCC backend a numeric level of at least 2 reads the
  compiler version; when the version query exits non-zero the call raises and no configuration
  is returned.
\<close>

theorem with_optimization_level_counterexample:
  "snd (gcc_with_optimization_level failing_host example_toolchain (Level 2))
     = Inl (RuntimeError ''version query failed: fatal: no such file'')"
  by (simp add: gcc_with_optimization_level_def gcc_get_version_tuple_def get_version_def
      call_capture_output_def failing_host_def example_host_def example_toolchain_def)

text \<open>
  C5 (amended). On the GCC backend \<open>with_optimization_level\<close> leaves the receiver unchanged
  in every case. It returns a new configuration, which differs from the receiver in the
  compile flags only, whenever the level is \<open>debug\<close> or below 2 or the version tuple can be
  read. Applied twice, the second result is the one a single application of the second level
  gives: every \<open>-O\<close>, \<open>-g\<close>, \<open>-march\<close>, \<open>-mtune\<close> or \<open>-DNDEBUG\<close> flag in it is one the second
  level emits.
\<close>

theorem with_optimization_level_pure:
  "fst (gcc_with_optimization_level h self l1) = self
   \<and> ((gcc_get_version_tuple h self = Inr v \<or> l1 = Debug \<or> (l1 = Level n \<and> n < 2)) \<longrightarrow>
        (\<exists>t. snd (gcc_with_optimization_level h self l1) = Inr t))
   \<and> (snd (gcc_with_optimization_level h self l1) = Inr t1 \<longrightarrow>
        t1 = self\<lparr>cflags := cflags t1\<rparr>
        \<and> (snd (gcc_with_optimization_level h t1 l2) = Inr t2 \<longrightarrow>
             snd (gcc_with_optimization_level h self l2) = Inr t2
             \<and> (\<forall>f\<in>set (cflags t2).
                  startswith f ''-O'' \<or> startswith f ''-g'' \<or> startswith f ''-march''
                  \<or> startswith f ''-mtune'' \<or> startswith f ''-DNDEBUG'' \<longrightarrow>
                  f \<in> (case l2 of Debug \<Rightarrow> {''-g''}
                         | Level m \<Rightarrow> {''-O'' @ dec_int m, ''-DNDEBUG'',
                                        ''-march=native'', ''-mtune=native''}))))"
proof (intro conjI impI ballI)
  show "fst (gcc_with_optimization_level h self l1) = self" by (rule gcc_level_receiver)
next
  assume "gcc_get_version_tuple h self = Inr v \<or> l1 = Debug \<or> (l1 = Level n \<and> n < 2)"
  then show "\<exists>t. snd (gcc_with_optimization_level h self l1) = Inr t"
    by (rule gcc_level_returns)
next
  assume "snd (gcc_with_optimization_level h self l1) = Inr t1"
  then show "t1 = self\<lparr>cflags := cflags t1\<rparr>" by (rule gcc_level_only_cflags)
next
  assume 1: "snd (gcc_with_optimization_level h self l1) = Inr t1"
    and 2: "snd (gcc_with_optimization_level h t1 l2) = Inr t2"
  show "snd (gcc_with_optimization_level h self l2) = Inr t2"
    using gcc_level_twice [OF 1, of l2] 2 by simp
next
  fix f
  assume "snd (gcc_with_optimization_level h t1 l2) = Inr t2" and "f \<in> set (cflags t2)"
    and "startswith f ''-O'' \<or> startswith f ''-g'' \<or> startswith f ''-march''
         \<or> startswith f ''-mtune'' \<or> startswith f ''-DNDEBUG''"
  then show "f \<in> (case l2 of Debug \<Rightarrow> {''-g''}
               | Level m \<Rightarrow> {''-O'' @ dec_int m, ''-DNDEBUG'', ''-march=native'', ''-mtune=native''})"
    by (rule gcc_level_flags)
qed

lemma example_version_tuple:
  "gcc_get_version_tuple example_host example_toolchain = Inr [4, 8, 2]"
  by (simp add: gcc_get_version_tuple_def get_version_def call_capture_output_def
      example_host_def example_toolchain_def split_char_def split_ws_def is_space_def
      decimal_def)

lemma example_level3:
  "snd (gcc_with_optimization_level example_host example_toolchain (Level 3))
     = Inr (example_toolchain\<lparr>cflags :=
         [''-Wall'', ''-O3'', ''-DNDEBUG'', ''-march=native'', ''-mtune=native'']\<rparr>)"
  by (simp add: gcc_with_optimization_level_def example_version_tuple remove_prefix_def
      startswith_def dec_int_def dec_nat.simps digit_char_def)
     (simp add: example_toolchain_def)

lemma example_level3_debug:
  "snd (gcc_with_optimization_level example_host
          (example_toolchain\<lparr>cflags :=
             [''-Wall'', ''-O3'', ''-DNDEBUG'', ''-march=native'', ''-mtune=native'']\<rparr>) Debug)
     = Inr (example_toolchain\<lparr>cflags := [''-Wall'', ''-g'']\<rparr>)"
  by (simp add: gcc_with_optimization_level_def remove_prefix_def startswith_def)

theorem with_optimization_level_pure_witness:
  "gcc_get_version_tuple example_host example_toolchain = Inr [4, 8, 2]
   \<and> snd (gcc_with_optimization_level example_host example_toolchain (Level 3))
       = Inr (example_toolchain\<lparr>cflags :=
           [''-Wall'', ''-O3'', ''-DNDEBUG'', ''-march=native'', ''-mtune=native'']\<rparr>)
   \<and> snd (gcc_with_optimization_level example_host
          (example_toolchain\<lparr>cflags :=
             [''-Wall'', ''-O3'', ''-DNDEBUG'', ''-march=native'', ''-mtune=native'']\<rparr>) Debug)
       = Inr (example_toolchain\<lparr>cflags := [''-Wall'', ''-g'']\<rparr>)
   \<and> snd (gcc_with_optimization_level example_host example_toolchain Debug)
       = Inr (example_toolchain\<lparr>cflags := [''-Wall'', ''-g'']\<rparr>)
   \<and> fst (gcc_with_optimization_level example_host example_toolchain (Level 3))
       = example_toolchain"
  using with_optimization_level_pure [where h = example_host and self = example_toolchain
      and ?l1.0 = "Level 3" and ?l2.0 = Debug and v = "[4, 8, 2]"
      and ?t1.0 = "example_toolchain\<lparr>cflags :=
           [''-Wall'', ''-O3'', ''-DNDEBUG'', ''-march=native'', ''-mtune=native'']\<rparr>"
      and ?t2.0 = "example_toolchain\<lparr>cflags := [''-Wall'', ''-g'']\<rparr>"]
    example_version_tuple example_level3 example_level3_debug
  by simp

text \<open>
  On the ISPC backend the method does not return: the constructor run by \<open>copy\<close> raises, after
  it has extended the receiver's \<open>defines\<close> and \<open>libraries\<close> in place. The compile flags of
  the receiver stay as they were.
\<close>

lemma ispc_level_raises:
  "ispc_with_optimization_level h self lvl
     = (self\<lparr>defines' := defines' self @ [''ISPC_USE_OMP''],
              libraries := libraries self @ [''-fopenmp'']\<rparr>, Inl TypeError)"
  by (simp add: ispc_with_optimization_level_def ispc_init_def ispc_init_kwargs_def
      copy_kwargs_def toolchain_init_with_self_def pop_def Let_def)

section \<open>Properties of the build operations\<close>

lemma contains_iff_sublist: "contains s sub \<longleftrightarrow> sublist sub s"
  by (induction s) (simp_all add: sublist_Cons_right)

lemma invoke_nonzero:
  assumes "fst (run h c) \<noteq> 0"
  shows "snd (invoke h c debug) = Inl (CompileError ''module compilation failed'')"
    and "last (fst (invoke h c debug)) = (Stderr, ''FAILED compiler invocation:'' @ join '' '' c)"
  using assms by (simp_all add: invoke_def call_def Let_def)

lemma nvcc_build_object_nonzero:
  assumes "fst (run h (nvcc_cmdline self fs True @ [''-o'', ext])) \<noteq> 0"
  shows "snd (nvcc_build_object h self ext fs debug)
           = Inl (CompileError ''module compilation failed'')"
    and "last (fst (nvcc_build_object h self ext fs debug))
           = (Stderr, ''FAILED compiler invocation:''
                @ join '' '' (nvcc_cmdline self fs True @ [''-o'', ext]))"
proof -
  obtain r out err where r: "run h (nvcc_cmdline self fs True @ [''-o'', ext]) = (r, out, err)"
    by (cases "run h (nvcc_cmdline self fs True @ [''-o'', ext])") auto
  with assms have "r \<noteq> 0" by simp
  with r show "snd (nvcc_build_object h self ext fs debug)
           = Inl (CompileError ''module compilation failed'')"
    by (simp add: nvcc_build_object_def call_capture_output_def Let_def)
  from r \<open>r \<noteq> 0\<close> show "last (fst (nvcc_build_object h self ext fs debug))
           = (Stderr, ''FAILED compiler invocation:''
                @ join '' '' (nvcc_cmdline self fs True @ [''-o'', ext]))"
    by (simp add: nvcc_build_object_def call_capture_output_def Let_def)
qed

lemma nvcc_build_object_scan:
  assumes "run h (nvcc_cmdline self fs True @ [''-o'', ext]) = (r, out, err)"
    and "contains err ''error''" and "k \<noteq> 0"
  shows "nvcc_build_object h self ext fs debug
         = nvcc_build_object
             (h\<lparr>run := (run h)(nvcc_cmdline self fs True @ [''-o'', ext] := (k, out, err))\<rparr>)
             self ext fs debug"
  using assms by (simp add: nvcc_build_object_def call_capture_output_def Let_def)

text \<open>
  C6 (as stated, refuted). On the CUDA backend \<open>build_extension\<close> is the inherited method: it
  runs the command with \<open>call\<close> and looks at the exit code only. With exit code zero and the
  word \<open>error\<close> on standard error it returns normally.
\<close>

theorem nvcc_build_extension_counterexample:
  "fst (run quiet_error_host (nvcc_cmdline example_nvcc [''k.cu''] False @ [''-o'', ''k.so''])) = 0
   \<and> contains (snd (snd (run quiet_error_host
          (nvcc_cmdline example_nvcc [''k.cu''] False @ [''-o'', ''k.so''])))) ''error''
   \<and> build_extension NVCC quiet_error_host example_nvcc ''k.so'' [''k.cu''] False = ([], Inr ())"
  by (simp add: build_extension_def gcclike_build_extension_def cmdline_def invoke_def call_def
      quiet_error_host_def example_host_def)

text \<open>
  C6 (amended). On the CUDA backend, \<open>build_object\<close> raises \<open>CompileError\<close> when the
  subprocess exits with code zero and its captured standard error contains \<open>error\<close>, and it
  prints and raises exactly what it would had the exit code been any non-zero \<open>k\<close>.
\<close>

theorem nvcc_build_object_error_scan:
  assumes "run h (nvcc_cmdline self source_files True @ [''-o'', ext_file]) = (0, out, err)"
    and "contains err ''error''"
  shows "snd (build_object NVCC h self ext_file source_files debug)
           = Inl (CompileError ''module compilation failed'')
    \<and> (k \<noteq> 0 \<longrightarrow>
         build_object NVCC h self ext_file source_files debug
         = build_object NVCC
             (h\<lparr>run := (run h)(nvcc_cmdline self source_files True @ [''-o'', ext_file]
                               := (k, out, err))\<rparr>)
             self ext_file source_files debug)"
proof
  show "snd (build_object NVCC h self ext_file source_files debug)
           = Inl (CompileError ''module compilation failed'')"
    using assms by (simp add: build_object_def nvcc_build_object_def call_capture_output_def Let_def)
  show "k \<noteq> 0 \<longrightarrow>
         build_object NVCC h self ext_file source_files debug
         = build_object NVCC
             (h\<lparr>run := (run h)(nvcc_cmdline self source_files True @ [''-o'', ext_file]
                               := (k, out, err))\<rparr>)
             self ext_file source_files debug"
    using nvcc_build_object_scan [OF assms, where k = k and debug = debug] by (simp add: build_object_def)
qed

theorem nvcc_build_object_error_scan_witness:
  "run quiet_error_host (nvcc_cmdline example_nvcc [''k.cu''] True @ [''-o'', ''k.o''])
     = (0, [], ''k.cu(3): error: identifier x is undefined'')
   \<and> contains ''k.cu(3): error: identifier x is undefined'' ''error''
   \<and> snd (build_object NVCC quiet_error_host example_nvcc ''k.o'' [''k.cu''] False)
       = Inl (CompileError ''module compilation failed'')"
proof -
  have r: "run quiet_error_host (nvcc_cmdline example_nvcc [''k.cu''] True @ [''-o'', ''k.o''])
     = (0, [], ''k.cu(3): error: identifier x is undefined'')"
    by (simp add: quiet_error_host_def example_host_def)
  have c: "contains ''k.cu(3): error: identifier x is undefined'' ''error''"
    by simp
  show ?thesis
    using r c nvcc_build_object_error_scan [OF r c, where k = 1 and debug = False] by blast
qed

text \<open>
  C9 (as stated, refuted). The exception raised on a non-zero exit code is
  \<open>CompileError("module compilation failed")\<close>: its message contains neither the command line
  that was run nor what the subprocess wrote to standard error.
\<close>

theorem build_object_error_counterexample:
  "fst (run failing_host (gcc_cmdline example_toolchain [''a.c''] True @ [''-o'', ''a.o''])) \<noteq> 0
   \<and> snd (build_object GCC failing_host example_toolchain ''a.o'' [''a.c''] False)
       = Inl (CompileError ''module compilation failed'')
   \<and> \<not> contains ''module compilation failed''
         (join '' '' (gcc_cmdline example_toolchain [''a.c''] True @ [''-o'', ''a.o'']))
   \<and> \<not> contains ''module compilation failed''
         (snd (snd (run failing_host
            (gcc_cmdline example_toolchain [''a.c''] True @ [''-o'', ''a.o'']))))"
  by (simp add: build_object_def gcclike_build_object_def cmdline_def invoke_def call_def
      failing_host_def example_host_def gcc_cmdline_def example_toolchain_def)

text \<open>
  C9 (amended). Whenever the subprocess of \<open>build_object\<close>, \<open>build_extension\<close> or
  \<open>link_extension\<close> returns a non-zero exit code, the operation raises \<open>CompileError\<close> with the
  fixed message \<open>module compilation failed\<close>, and the last line it prints, on standard error, is
  \<open>FAILED compiler invocation:\<close> followed by the exact command line joined with spaces. (On the
  ISPC backend \<open>build_extension\<close> reaches the subprocess for an empty source list only, with the
  companion source appended.)
\<close>

theorem nonzero_exit_raises_compile_error:
  "(cmdline b self files True = Inr c \<and> fst (run h (c @ [''-o'', ext_file])) \<noteq> 0 \<longrightarrow>
      snd (build_object b h self ext_file files debug)
        = Inl (CompileError ''module compilation failed'')
      \<and> last (fst (build_object b h self ext_file files debug))
        = (Stderr, ''FAILED compiler invocation:'' @ join '' '' (c @ [''-o'', ext_file])))
   \<and> (b \<noteq> ISPC \<and> cmdline b self files False = Inr c \<and> fst (run h (c @ [''-o'', ext_file])) \<noteq> 0 \<longrightarrow>
      snd (build_extension b h self ext_file files debug)
        = Inl (CompileError ''module compilation failed'')
      \<and> last (fst (build_extension b h self ext_file files debug))
        = (Stderr, ''FAILED compiler invocation:'' @ join '' '' (c @ [''-o'', ext_file])))
   \<and> (cmdline ISPC self [path_join (module_path h) [''include'', ''codepytasksys.cpp'']] False = Inr c
       \<and> fst (run h (c @ [''-o'', ext_file])) \<noteq> 0 \<longrightarrow>
      snd (build_extension ISPC h self ext_file [] debug)
        = Inl (CompileError ''module compilation failed'')
      \<and> last (fst (build_extension ISPC h self ext_file [] debug))
        = (Stderr, ''FAILED compiler invocation:'' @ join '' '' (c @ [''-o'', ext_file])))
   \<and> (cmdline b self files False = Inr c \<and> fst (run h (c @ [''-o'', ext_file])) \<noteq> 0 \<longrightarrow>
      snd (link_extension b h self ext_file files debug)
        = Inl (CompileError ''module compilation failed'')
      \<and> last (fst (link_extension b h self ext_file files debug))
        = (Stderr, ''FAILED compiler invocation:'' @ join '' '' (c @ [''-o'', ext_file])))"
proof (intro conjI impI; elim conjE)
  assume c: "cmdline b self files True = Inr c" and r: "fst (run h (c @ [''-o'', ext_file])) \<noteq> 0"
  show "snd (build_object b h self ext_file files debug)
        = Inl (CompileError ''module compilation failed'')"
  proof (cases "b = NVCC")
    case True
    with c have "c = nvcc_cmdline self files True" by (simp add: cmdline_def)
    with True r show ?thesis
      by (simp add: build_object_def nvcc_build_object_nonzero)
  next
    case False
    with c r show ?thesis
      by (cases b) (simp_all add: build_object_def gcclike_build_object_def invoke_nonzero)
  qed
  show "last (fst (build_object b h self ext_file files debug))
        = (Stderr, ''FAILED compiler invocation:'' @ join '' '' (c @ [''-o'', ext_file]))"
  proof (cases "b = NVCC")
    case True
    with c have "c = nvcc_cmdline self files True" by (simp add: cmdline_def)
    with True r show ?thesis
      by (simp add: build_object_def nvcc_build_object_nonzero)
  next
    case False
    with c r show ?thesis
      by (cases b) (simp_all add: build_object_def gcclike_build_object_def invoke_nonzero)
  qed
next
  assume b: "b \<noteq> ISPC" and c: "cmdline b self files False = Inr c"
    and r: "fst (run h (c @ [''-o'', ext_file])) \<noteq> 0"
  from b c r show "snd (build_extension b h self ext_file files debug)
        = Inl (CompileError ''module compilation failed'')"
    by (cases b) (simp_all add: build_extension_def gcclike_build_extension_def invoke_nonzero)
  from b c r show "last (fst (build_extension b h self ext_file files debug))
        = (Stderr, ''FAILED compiler invocation:'' @ join '' '' (c @ [''-o'', ext_file]))"
    by (cases b) (simp_all add: build_extension_def gcclike_build_extension_def invoke_nonzero)
next
  assume c: "cmdline ISPC self [path_join (module_path h) [''include'', ''codepytasksys.cpp'']] False
             = Inr c"
    and r: "fst (run h (c @ [''-o'', ext_file])) \<noteq> 0"
  have g: "gcclike_build_extension ISPC h self ext_file
             [path_join (module_path h) [''include'', ''codepytasksys.cpp'']] False
           = invoke h (c @ [''-o'', ext_file]) False"
    using c by (simp add: gcclike_build_extension_def)
  obtain out res where i: "invoke h (c @ [''-o'', ext_file]) False = (out, res)"
    by (cases "invoke h (c @ [''-o'', ext_file]) False") auto
  have res: "res = Inl (CompileError ''module compilation failed'')"
    using invoke_nonzero(1) [OF r, of False] i by simp
  have out: "out = [(Stderr, ''FAILED compiler invocation:'' @ join '' '' (c @ [''-o'', ext_file]))]"
    using i r by (simp add: invoke_def call_def Let_def)
  show "snd (build_extension ISPC h self ext_file [] debug)
        = Inl (CompileError ''module compilation failed'')"
    using g i res by (simp add: build_extension_def ispc_build_extension_def Let_def)
  show "last (fst (build_extension ISPC h self ext_file [] debug))
        = (Stderr, ''FAILED compiler invocation:'' @ join '' '' (c @ [''-o'', ext_file]))"
    using g i out by (simp add: build_extension_def ispc_build_extension_def Let_def)
next
  assume c: "cmdline b self files False = Inr c" and r: "fst (run h (c @ [''-o'', ext_file])) \<noteq> 0"
  from c r show "snd (link_extension b h self ext_file files debug)
        = Inl (CompileError ''module compilation failed'')"
    by (simp add: link_extension_def gcclike_link_extension_def invoke_nonzero)
  from c r show "last (fst (link_extension b h self ext_file files debug))
        = (Stderr, ''FAILED compiler invocation:'' @ join '' '' (c @ [''-o'', ext_file]))"
    by (simp add: link_extension_def gcclike_link_extension_def invoke_nonzero)
qed

theorem nonzero_exit_raises_compile_error_witness:
  "cmdline GCC example_toolchain [''a.c''] True = Inr (gcc_cmdline example_toolchain [''a.c''] True)
   \<and> fst (run failing_host (gcc_cmdline example_toolchain [''a.c''] True @ [''-o'', ''a.o''])) \<noteq> 0
   \<and> snd (build_object GCC failing_host example_toolchain ''a.o'' [''a.c''] True)
       = Inl (CompileError ''module compilation failed'')
   \<and> last (fst (build_object GCC failing_host example_toolchain ''a.o'' [''a.c''] True))
       = (Stderr, ''FAILED compiler invocation:gcc -O2 -Wall -c -DNDEBUG -I/usr/include a.c -o a.o'')"
  using nonzero_exit_raises_compile_error [where b = GCC and self = example_toolchain
      and files = "[''a.c'']" and c = "gcc_cmdline example_toolchain [''a.c''] True"
      and h = failing_host and ext_file = "''a.o''" and debug = True]
  by (simp add: cmdline_def failing_host_def example_host_def)
     (simp add: gcc_cmdline_def example_toolchain_def)

section \<open>Properties of the ISPC backend\<close>

lemma mixed_ispc_cpp_rejected:
  "ispc_cmdline example_ispc [''k.ispc'', ''t.cpp''] True
     = Inl (CompileErrorMixed {''ispc'', ''cpp''})"
  by (simp add: ispc_cmdline_def get_cc_def check_mixed_def get_ext_def endswith_def
      suffix_to_prefix example_ispc_def Let_def)

text \<open>
  C7 (the code at the failing input). A link step over an object file and a shared library
  dispatches to the linker, the two extensions \<open>o\<close> and \<open>so\<close> differ, and the command line
  is built without an error: the check compares with \<open>endswith\<close>, and \<open>b.so\<close> ends in \<open>o\<close>.
\<close>

theorem ispc_cmdline_mixed_not_rejected:
  "get_cc example_ispc [''a.o'', ''b.so''] False = ld example_ispc
   \<and> ld example_ispc \<noteq> cc example_ispc
   \<and> get_ext ''a.o'' = Inr ''o'' \<and> get_ext ''b.so'' = Inr ''so''
   \<and> ispc_cmdline example_ispc [''a.o'', ''b.so''] False
       = Inr [''ld'', ''-fPIC'', ''-DISPC_USE_OMP'', ''a.o'', ''b.so'', ''-fopenmp'']"
  by (simp add: ispc_cmdline_def get_cc_def check_mixed_def get_ext_def endswith_def
      suffix_to_prefix example_ispc_def Let_def)

text \<open>
  C8 (the code at the failing input). For a non-empty source list, with or without the
  companion source, \<open>ISPCToolchain.build_extension\<close> raises \<open>NameError\<close> before anything is
  appended or run: the generator tests \<open>file\<close>, not its loop variable \<open>f\<close>.
\<close>

theorem ispc_build_extension_name_error:
  "build_extension ISPC example_host example_ispc ''mod.so'' [''kernel.ispc''] False
     = ([], Inl (NameError ''file''))
   \<and> build_extension ISPC example_host example_ispc ''mod.so''
        [''kernel.ispc'', ''tasksys.cpp''] False
     = ([], Inl (NameError ''file''))"
  by (simp add: build_extension_def ispc_build_extension_def file_endswith_def)

text \<open>
  The constructor never returns an object: it raises in the target probe or at the call of
  the base class.
\<close>

lemma ispc_init_raises: "\<exists>e. snd (ispc_init h kw) = Inl e"
  by (cases "ispc_init_kwargs h kw")
     (auto simp: ispc_init_def toolchain_init_with_self_def split: sum.splits)

text \<open>
  C10. With \<open>use_openmp=False\<close> the constructor extends the libraries list with the eight
  one-character strings of \<open>pthreads\<close> (not with the single entry \<open>pthreads\<close>) and the defines
  with \<open>ISPC_USE_PTHREADS\<close>; with \<open>use_openmp\<close> true or absent it appends the single library
  entry \<open>-fopenmp\<close> and the define \<open>ISPC_USE_OMP\<close>. This is so of the lists in place, whatever
  happens later in the constructor, and of the keyword arguments handed to the constructor of
  the base class, which is reached whenever the target is the default \<open>host\<close>.
\<close>

theorem ispc_init_threading:
  "(kw_use_openmp kw = Some False \<longrightarrow>
      libraries_list (fst (ispc_init h kw))
        = pop (kw_libraries kw) [] @ [''p'', ''t'', ''h'', ''r'', ''e'', ''a'', ''d'', ''s'']
      \<and> libraries_list (fst (ispc_init h kw)) \<noteq> pop (kw_libraries kw) [] @ [''pthreads'']
      \<and> defines_list (fst (ispc_init h kw)) = pop (kw_defines kw) [] @ [''ISPC_USE_PTHREADS'']
      \<and> (snd (ispc_init_kwargs h kw) = Inr k \<longrightarrow>
           libraries k = pop (kw_libraries kw) []
                         @ [''p'', ''t'', ''h'', ''r'', ''e'', ''a'', ''d'', ''s'']
           \<and> defines' k = pop (kw_defines kw) [] @ [''ISPC_USE_PTHREADS'']))
   \<and> (kw_use_openmp kw = Some True \<or> kw_use_openmp kw = None \<longrightarrow>
      libraries_list (fst (ispc_init h kw)) = pop (kw_libraries kw) [] @ [''-fopenmp'']
      \<and> defines_list (fst (ispc_init h kw)) = pop (kw_defines kw) [] @ [''ISPC_USE_OMP'']
      \<and> (snd (ispc_init_kwargs h kw) = Inr k \<longrightarrow>
           libraries k = pop (kw_libraries kw) [] @ [''-fopenmp'']
           \<and> defines' k = pop (kw_defines kw) [] @ [''ISPC_USE_OMP'']))
   \<and> (pop (kw_target kw) (PyStr ''host'') = PyStr ''host'' \<longrightarrow>
        (\<exists>k'. snd (ispc_init_kwargs h kw) = Inr k'))"
proof -
  have fst_eq: "fst (ispc_init h kw) = fst (ispc_init_kwargs h kw)"
    by (cases "ispc_init_kwargs h kw") (simp add: ispc_init_def split: sum.splits)
  have inplace: "libraries_list (fst (ispc_init_kwargs h kw))
        = (if pop (kw_use_openmp kw) True then pop (kw_libraries kw) [] @ [''-fopenmp'']
           else pop (kw_libraries kw) [] @ [''p'', ''t'', ''h'', ''r'', ''e'', ''a'', ''d'', ''s''])"
      "defines_list (fst (ispc_init_kwargs h kw))
        = (if pop (kw_use_openmp kw) True then pop (kw_defines kw) [] @ [''ISPC_USE_OMP'']
           else pop (kw_defines kw) [] @ [''ISPC_USE_PTHREADS''])"
    by (simp_all add: ispc_init_kwargs_def Let_def split: sum.splits)
  have handed: "snd (ispc_init_kwargs h kw) = Inr k \<Longrightarrow>
        libraries k = libraries_list (fst (ispc_init_kwargs h kw))
        \<and> defines' k = defines_list (fst (ispc_init_kwargs h kw))"
    by (auto simp: ispc_init_kwargs_def Let_def split: sum.splits if_splits)
  have reached: "pop (kw_target kw) (PyStr ''host'') = PyStr ''host'' \<Longrightarrow>
        \<exists>k'. snd (ispc_init_kwargs h kw) = Inr k'"
    by (simp add: ispc_init_kwargs_def Let_def)
  have f: "kw_use_openmp kw = Some False \<Longrightarrow> \<not> pop (kw_use_openmp kw) True"
    by (simp add: pop_def)
  have t: "kw_use_openmp kw = Some True \<or> kw_use_openmp kw = None \<Longrightarrow> pop (kw_use_openmp kw) True"
    by (auto simp: pop_def)
  show ?thesis
    using handed reached f t by (simp add: fst_eq inplace)
qed

theorem ispc_init_threading_witness:
  "kw_use_openmp pthreads_kwargs = Some False
   \<and> libraries_list (fst (ispc_init example_host pthreads_kwargs))
       = [''m'', ''p'', ''t'', ''h'', ''r'', ''e'', ''a'', ''d'', ''s'']
   \<and> defines_list (fst (ispc_init example_host pthreads_kwargs)) = [''ISPC_USE_PTHREADS'']"
  using ispc_init_threading [where kw = pthreads_kwargs and h = example_host]
  by (simp add: pthreads_kwargs_def pop_def)

section \<open>Properties of the dependency scan\<close>

lemma words_acc_token:
  "list_all (\<lambda>c. \<not> is_space c) t \<Longrightarrow> words_acc cur (t @ r) = words_acc (cur @ t) r"
  by (induction t arbitrary: cur) simp_all

lemma words_acc_spaces:
  "list_all is_space w \<Longrightarrow> words_acc [] (w @ r) = words_acc [] r"
  by (induction w) simp_all

lemma words_acc_separator:
  assumes "sep \<noteq> []" and "list_all is_space sep" and "cur \<noteq> []"
  shows "words_acc cur (sep @ r) = cur # words_acc [] r"
proof (cases sep)
  case Nil
  with assms(1) show ?thesis by simp
next
  case (Cons c w)
  with assms(2) have c: "is_space c" and w: "list_all is_space w" by simp_all
  show ?thesis using c assms(3) words_acc_spaces [OF w, of r] by (simp add: Cons)
qed

lemma words_acc_trail:
  assumes "list_all is_space w" and "cur \<noteq> []"
  shows "words_acc cur w = [cur]"
proof (cases w)
  case Nil
  with assms(2) show ?thesis by simp
next
  case (Cons c v)
  with assms(1) have c: "is_space c" and v: "list_all is_space v" by simp_all
  show ?thesis using c assms(2) words_acc_spaces [OF v, of "[]"] by (simp add: Cons)
qed

lemma words_of_tokens:
  assumes "tok \<noteq> []" and "list_all (\<lambda>c. \<not> is_space c) tok"
    and "list_all (\<lambda>(sep, d). sep \<noteq> [] \<and> list_all is_space sep
                             \<and> d \<noteq> [] \<and> list_all (\<lambda>c. \<not> is_space c) d) deps"
    and "list_all is_space trail"
  shows "words_acc [] (tok @ concat (map (\<lambda>(sep, d). sep @ d) deps) @ trail) = tok # map snd deps"
  using assms
proof (induction deps arbitrary: tok)
  case Nil
  have "words_acc [] (tok @ trail) = words_acc tok trail"
    using words_acc_token [OF Nil(2), of "[]" trail] by simp
  also have "\<dots> = [tok]" using Nil(4,1) by (rule words_acc_trail)
  finally show ?case by simp
next
  case (Cons p deps)
  obtain sep d where p: "p = (sep, d)" by (cases p)
  from Cons.prems(3) p have sep: "sep \<noteq> []" "list_all is_space sep"
    and d: "d \<noteq> []" "list_all (\<lambda>c. \<not> is_space c) d"
    and rest: "list_all (\<lambda>(sep, d). sep \<noteq> [] \<and> list_all is_space sep
                             \<and> d \<noteq> [] \<and> list_all (\<lambda>c. \<not> is_space c) d) deps"
    by simp_all
  let ?R = "concat (map (\<lambda>(sep, d). sep @ d) deps) @ trail"
  have "words_acc [] (tok @ sep @ d @ ?R) = words_acc tok (sep @ d @ ?R)"
    using words_acc_token [OF Cons.prems(2), of "[]" "sep @ d @ ?R"] by simp
  also have "\<dots> = tok # words_acc [] (d @ ?R)"
    using sep Cons.prems(1) by (rule words_acc_separator)
  also have "words_acc [] (d @ ?R) = d # map snd deps"
    using d rest Cons.prems(4) by (rule Cons.IH)
  finally show ?case by (simp add: p)
qed

lemma split_ws_dep_line:
  assumes "well_formed_line target deps trail"
  shows "split_ws (dep_line target deps trail) = (target @ '':'') # map snd deps"
proof -
  have "\<not> is_space CHR '':''" by (simp add: is_space_def)
  with assms have t: "list_all (\<lambda>c. \<not> is_space c) (target @ '':'')"
    by (simp add: well_formed_line_def)
  have "words_acc [] ((target @ '':'') @ concat (map (\<lambda>(sep, d). sep @ d) deps) @ trail)
        = (target @ '':'') # map snd deps"
    using _ t
  proof (rule words_of_tokens)
    show "target @ '':'' \<noteq> []" by simp
  qed (use assms in \<open>simp_all add: well_formed_line_def\<close>)
  then show ?thesis by (simp add: split_ws_def dep_line_def)
qed

lemma split_ws_empty: "split_ws [] = []"
  by (simp add: split_ws_def)

lemma deps_cover:
  assumes "filter (\<lambda>l. l \<noteq> []) ls = map (\<lambda>(t, deps, trail). dep_line t deps trail) lines"
    and "list_all (\<lambda>(t, deps, trail). well_formed_line t deps trail) lines"
  shows "set (concat (map (\<lambda>line. drop 2 (split_ws line)) ls))
         = (\<Union>(t, deps, trail)\<in>set lines. set (tl (map snd deps)))"
proof -
  let ?f = "\<lambda>line. drop 2 (split_ws line)"
  have "set (concat (map ?f ls)) = set (concat (map ?f (filter (\<lambda>l. l \<noteq> []) ls)))"
    by (induction ls) (simp_all add: split_ws_empty)
  also have "\<dots> = set (concat (map ?f (map (\<lambda>(t, deps, trail). dep_line t deps trail) lines)))"
    by (simp only: assms(1))
  also have "\<dots> = (\<Union>(t, deps, trail)\<in>set lines. set (tl (map snd deps)))"
    using assms(2)
  proof (induction lines)
    case Nil
    then show ?case by simp
  next
    case (Cons x xs)
    obtain t deps trail where x: "x = (t, deps, trail)" by (cases x)
    with Cons.prems have w: "well_formed_line t deps trail"
      and r: "list_all (\<lambda>(t, deps, trail). well_formed_line t deps trail) xs" by simp_all
    have "drop 2 (split_ws (dep_line t deps trail)) = tl (map snd deps)"
      by (simp add: split_ws_dep_line [OF w] drop_Suc numeral_2_eq_2)
    then show ?case using Cons.IH [OF r] by (simp add: x)
  qed
  finally show ?thesis .
qed

lemma example_deps_lines:
  "join_continued_lines (split_char (CHR 0x0A) (''out.o: a.h b.h '' @ [CHR 0x5C, CHR 0x0A] @ ''c.h''))
     = [''out.o: a.h b.h c.h'']"
  by (simp add: split_char_def endswith_def suffix_to_prefix)

lemma example_deps_words:
  "split_ws ''out.o: a.h b.h c.h'' = [''out.o:'', ''a.h'', ''b.h'', ''c.h'']"
  by (simp add: split_ws_def is_space_def)

lemma example_deps_wf:
  "list_all (\<lambda>(t, deps, trail). well_formed_line t deps trail)
        [(''out.o'', [('' '', ''a.h''), ('' '', ''b.h''), ('' '', ''c.h'')], [])]"
  by (simp add: well_formed_line_def is_space_def)

lemma example_sets_differ: "{''b.h'', ''c.h''} \<noteq> {''a.h'', ''b.h'', ''c.h''}"
proof
  assume "{''b.h'', ''c.h''} = {''a.h'', ''b.h'', ''c.h''}"
  then have "(''a.h'' \<in> {''b.h'', ''c.h''}) = (''a.h'' \<in> {''a.h'', ''b.h'', ''c.h''})"
    by (rule arg_cong [where f = "\<lambda>S. ''a.h'' \<in> S"])
  then show False by simp
qed

lemma example_deps_run:
  "run deps_host cmd = (0, ''out.o: a.h b.h '' @ [CHR 0x5C, CHR 0x0A] @ ''c.h'', [])"
  by (simp add: deps_host_def example_host_def)

text \<open>
  C1 (as stated, refuted). On the output \<open>out.o: a.h b.h\<close>, backslash, newline, \<open>c.h\<close> the
  scanner returns the set of \<open>b.h\<close> and \<open>c.h\<close>: the first two words of the joined line are
  \<open>out.o:\<close> and \<open>a.h\<close>, and both are dropped.
\<close>

theorem get_dependencies_counterexample:
  "get_dependencies deps_host example_toolchain [''a.c''] = Inr {''b.h'', ''c.h''}
   \<and> get_dependencies deps_host example_toolchain [''a.c''] \<noteq> Inr {''a.h'', ''b.h'', ''c.h''}"
proof -
  have "get_dependencies deps_host example_toolchain [''a.c'']
        = Inr (set (concat (map (\<lambda>line. drop 2 (split_ws line))
            (join_continued_lines (split_char (CHR 0x0A)
               (''out.o: a.h b.h '' @ [CHR 0x5C, CHR 0x0A] @ ''c.h''))))))"
    by (simp only: get_dependencies_def call_capture_output_def example_deps_run
        prod.case Let_def) simp
  then have r: "get_dependencies deps_host example_toolchain [''a.c''] = Inr {''b.h'', ''c.h''}"
    by (simp only: example_deps_lines) (simp add: example_deps_words)
  show ?thesis
    using example_sets_differ by (simp only: r sum.inject) simp
qed

text \<open>
  C1 (amended). When the dependency scan exits with code zero and the non-empty logical lines
  of its output, after folding the continuations, are lines \<open>target: dep1 dep2 ...\<close> (words
  separated by whitespace), \<open>get_dependencies\<close> returns the set of the dependencies of every
  line except the first one of the line: the two words it drops are \<open>target:\<close> and \<open>dep1\<close>.
\<close>

theorem get_dependencies_drops_two_words:
  assumes "run h (dependencies_cmdline self source_files) = (0, stdout, stderr)"
    and "filter (\<lambda>l. l \<noteq> []) (join_continued_lines (split_char (CHR 0x0A) stdout))
         = map (\<lambda>(t, deps, trail). dep_line t deps trail) lines"
    and "list_all (\<lambda>(t, deps, trail). well_formed_line t deps trail) lines"
  shows "get_dependencies h self source_files
         = Inr (\<Union>(t, deps, trail)\<in>set lines. set (tl (map snd deps)))"
proof -
  have "get_dependencies h self source_files
        = Inr (set (concat (map (\<lambda>line. drop 2 (split_ws line))
                 (join_continued_lines (split_char (CHR 0x0A) stdout)))))"
    using assms(1) by (simp add: get_dependencies_def call_capture_output_def)
  then show ?thesis
    by (simp only: deps_cover [OF assms(2,3)])
qed

theorem get_dependencies_drops_two_words_witness:
  "run deps_host (dependencies_cmdline example_toolchain [''a.c''])
     = (0, ''out.o: a.h b.h '' @ [CHR 0x5C, CHR 0x0A] @ ''c.h'', [])
   \<and> filter (\<lambda>l. l \<noteq> [])
        (join_continued_lines (split_char (CHR 0x0A)
           (''out.o: a.h b.h '' @ [CHR 0x5C, CHR 0x0A] @ ''c.h'')))
       = map (\<lambda>(t, deps, trail). dep_line t deps trail)
           [(''out.o'', [('' '', ''a.h''), ('' '', ''b.h''), ('' '', ''c.h'')], [])]
   \<and> list_all (\<lambda>(t, deps, trail). well_formed_line t deps trail)
        [(''out.o'', [('' '', ''a.h''), ('' '', ''b.h''), ('' '', ''c.h'')], [])]
   \<and> get_dependencies deps_host example_toolchain [''a.c''] = Inr {''b.h'', ''c.h''}"
proof -
  have 1: "run deps_host (dependencies_cmdline example_toolchain [''a.c''])
     = (0, ''out.o: a.h b.h '' @ [CHR 0x5C, CHR 0x0A] @ ''c.h'', [])"
    by (rule example_deps_run)
  have 2: "filter (\<lambda>l. l \<noteq> [])
        (join_continued_lines (split_char (CHR 0x0A)
           (''out.o: a.h b.h '' @ [CHR 0x5C, CHR 0x0A] @ ''c.h'')))
       = map (\<lambda>(t, deps, trail). dep_line t deps trail)
           [(''out.o'', [('' '', ''a.h''), ('' '', ''b.h''), ('' '', ''c.h'')], [])]"
    by (simp only: example_deps_lines) (simp add: dep_line_def)
  have 3: "list_all (\<lambda>(t, deps, trail). well_formed_line t deps trail)
        [(''out.o'', [('' '', ''a.h''), ('' '', ''b.h''), ('' '', ''c.h'')], [])]"
    by (rule example_deps_wf)
  have 4: "get_dependencies deps_host example_toolchain [''a.c''] = Inr {''b.h'', ''c.h''}"
    using get_dependencies_drops_two_words [OF 1 2 3] by simp
  show ?thesis
    by (intro conjI) (rule 1, rule 2, rule 3, rule 4)
qed

end
